theory Spec2Isabelle
  imports Main "HOL-Library.Word"
begin

section \<open>Data model\<close>

text \<open>
  The two Go files verified here are \<^verbatim>\<open>proxy.go\<close> (the dispatcher \<^verbatim>\<open>ServeHTTP\<close>, the two
  filter chains, \<^verbatim>\<open>removeProxyHeaders\<close>, \<^verbatim>\<open>copyHeaders\<close>) and \<^verbatim>\<open>ctx.go\<close> (\<^verbatim>\<open>ProxyCtx\<close>,
  \<^verbatim>\<open>RoundTrip\<close>, \<^verbatim>\<open>sendRequestManually\<close>, \<^verbatim>\<open>Charset\<close>).

  Go pointers to requests and responses are addresses into two stores, so that a filter
  which mutates \<^verbatim>\<open>*r\<close> in place and a filter which returns another pointer are different
  things, as they are in Go. A \<^verbatim>\<open>*http.Response\<close> that the code tests against \<^verbatim>\<open>nil\<close> is a
  \<open>ref option\<close>; dereferencing an address with no object behind it (the nil pointer, for a
  request) is the fault \<open>NilDeref\<close>.
  A request owns its URL and its header map (they are fields of the record rather than
  shared objects, and the map is never nil, as for every request the server or
  \<^verbatim>\<open>http.NewRequest\<close> builds), and a response that exists has a body object (net/http
  guarantees it for responses it parsed), so \<^verbatim>\<open>resp.Body\<close> is an address and only
  \<^verbatim>\<open>origBody\<close> can be nil.

  Filters, the fallback handler and the tunnel collaborators are functions on what their
  arguments let them reach; one that panics or never returns is outside the model.
  \<^verbatim>\<open>Logf\<close> and \<^verbatim>\<open>Warnf\<close> only write to the log and are left out. \<^verbatim>\<open>http.Error\<close>, the copy of
  the body and the closing of a body are recorded as events.
\<close>

type_synonym ref = nat

text \<open>\<^verbatim>\<open>http.Header\<close> is \<^verbatim>\<open>map[string][]string\<close>.\<close>

type_synonym Header = "string \<rightharpoonup> string list"

record URL =
  Scheme :: string
  Opaque :: string
  Host :: string
  EscapedPath :: string   \<comment> \<open>what \<^verbatim>\<open>u.EscapedPath()\<close> returns; the code never changes the path\<close>
  ForceQuery :: bool
  RawQuery :: string

record Request =
  Method :: string
  URL :: URL
  Header :: Header
  Close :: bool
  RequestURI :: string

record Response =
  Status :: string
  StatusCode :: int
  RespHeader :: Header
  Body :: ref

text \<open>
  \<^verbatim>\<open>ProxyCtx\<close>. \<^verbatim>\<open>RoundTripper\<close> is an interface value: the identity of the capability object,
  or nil. \<^verbatim>\<open>Error\<close> holds the error's message. The back reference \<^verbatim>\<open>Proxy\<close> and \<^verbatim>\<open>certStore\<close>
  are left out: the server's configuration is a parameter of every function below.
\<close>

record ProxyCtx =
  Req :: ref
  Resp :: "ref option"
  RoundTripper :: "nat option"
  Error :: "string option"
  UserData :: "nat option"
  Session :: "64 word"

text \<open>What a filter can reach through its arguments: the two stores and the context.\<close>

record heap =
  requests :: "ref \<rightharpoonup> Request"
  responses :: "ref \<rightharpoonup> Response"
  ctx :: ProxyCtx

text \<open>\<^verbatim>\<open>http.ResponseWriter\<close>: its header map and the status code written, if any.\<close>

record ResponseWriter =
  WHeader :: Header
  WCode :: "int option"

text \<open>
  The calls and the I/O the code performs are recorded, in order, in a trace that filters
  cannot touch. Filters are identified by their index in the registered list.
\<close>

datatype event =
    EvHandleHttps ref
  | EvNonproxyHandler ref
  | EvReqHandler nat ref
  | EvRespHandler nat "ref option"
  | EvServeWebsocket ref
  | EvRemoveProxyHeaders ref
  | EvSendRequestManually ref
  | EvDial bool string
  | EvWrite string string
  | EvHttpError string int
  | EvCopy ref bool
  | EvClose ref

record state =
  hp :: heap
  rw :: ResponseWriter
  sess :: "64 word"
  trace :: "event list"

datatype fault = NilDeref

type_synonym ReqHandler = "ref \<Rightarrow> heap \<Rightarrow> (ref \<times> ref option) \<times> heap"
type_synonym RespHandler = "ref option \<Rightarrow> heap \<Rightarrow> ref option \<times> heap"
type_synonym Handler = "ref \<Rightarrow> ResponseWriter \<times> heap \<Rightarrow> ResponseWriter \<times> heap"

text \<open>
  \<^verbatim>\<open>ProxyHttpServer\<close>: the flags and the registered filters. They do not change while a
  request is processed.
\<close>

record ProxyHttpServer =
  KeepDestinationHeaders :: bool
  KeepHeader :: bool
  NonproxyHandler :: Handler
  reqHandlers :: "ReqHandler list"
  respHandlers :: "RespHandler list"

text \<open>
  What the code calls but does not define in these two files: the tunnel collaborators of
  the package (\<^verbatim>\<open>handleHttps\<close>, \<^verbatim>\<open>isWebSocketRequest\<close>, \<^verbatim>\<open>serveWebsocket\<close>), the network
  (\<open>dial\<close> answers \<^verbatim>\<open>tls.Dial\<close> when its first argument is true and \<^verbatim>\<open>net.Dial\<close> otherwise,
  with the error if any; \<open>ReadResponse\<close> answers \<^verbatim>\<open>http.ReadResponse\<close> for the bytes written to
  the address, with the error, or the new response object and its address), and the order
  in which the Go runtime ranges over a map, which the language leaves unspecified.
\<close>

record env =
  handleHttps :: Handler
  isWebSocketRequest :: "Request \<Rightarrow> bool"
  serveWebsocket :: Handler
  dial :: "bool \<Rightarrow> string \<Rightarrow> string option"
  ReadResponse :: "string \<Rightarrow> string \<Rightarrow> string + (ref \<times> Response)"
  rangeKeys :: "Header \<Rightarrow> string list"

text \<open>An order is one the runtime can produce when it lists every key of the map once.\<close>

definition range_order :: "Header \<Rightarrow> string list \<Rightarrow> bool" where
  "range_order h ks \<longleftrightarrow> distinct ks \<and> set ks = dom h"

definition emit :: "event \<Rightarrow> state \<Rightarrow> state" where
  "emit e s = s\<lparr>trace := trace s @ [e]\<rparr>"

definition set_request :: "ref \<Rightarrow> Request \<Rightarrow> state \<Rightarrow> state" where
  "set_request r req s = s\<lparr>hp := (hp s)\<lparr>requests := (requests (hp s))(r \<mapsto> req)\<rparr>\<rparr>"

definition set_response :: "ref \<Rightarrow> Response \<Rightarrow> state \<Rightarrow> state" where
  "set_response p resp s = s\<lparr>hp := (hp s)\<lparr>responses := (responses (hp s))(p \<mapsto> resp)\<rparr>\<rparr>"

section \<open>net/textproto and net/url as the code uses them\<close>

definition isLower :: "char \<Rightarrow> bool" where
  "isLower c \<longleftrightarrow> 97 \<le> (of_char c :: nat) \<and> (of_char c :: nat) \<le> 122"

definition isUpper :: "char \<Rightarrow> bool" where
  "isUpper c \<longleftrightarrow> 65 \<le> (of_char c :: nat) \<and> (of_char c :: nat) \<le> 90"

definition isDigit :: "char \<Rightarrow> bool" where
  "isDigit c \<longleftrightarrow> 48 \<le> (of_char c :: nat) \<and> (of_char c :: nat) \<le> 57"

definition validHeaderFieldByte :: "char \<Rightarrow> bool" where
  "validHeaderFieldByte c \<longleftrightarrow> isLower c \<or> isUpper c \<or> isDigit c \<or>
     List.member [CHR ''!'', CHR ''#'', CHR ''$'', CHR ''%'', CHR ''&'', CHR 0x27, CHR ''*'',
       CHR ''+'', CHR ''-'', CHR ''.'', CHR ''^'', CHR ''_'', CHR 0x60, CHR ''|'', CHR ''~''] c"

text \<open>
  The canonicalising loop of \<^verbatim>\<open>textproto.CanonicalMIMEHeaderKey\<close>: upper case for the first
  letter and for a letter after a dash, lower case for the others.
\<close>

fun canonical_loop :: "bool \<Rightarrow> string \<Rightarrow> string" where
  "canonical_loop upper [] = []"
| "canonical_loop upper (c # cs) =
     (let c' = (if upper \<and> isLower c then char_of ((of_char c :: nat) - 32)
                else if \<not> upper \<and> isUpper c then char_of ((of_char c :: nat) + 32)
                else c)
      in c' # canonical_loop (c' = CHR ''-'') cs)"

text \<open>A key with a byte that is not a token byte is returned as it is.\<close>

definition CanonicalMIMEHeaderKey :: "string \<Rightarrow> string" where
  "CanonicalMIMEHeaderKey s = (if list_all validHeaderFieldByte s then canonical_loop True s else s)"

definition Header_Get :: "Header \<Rightarrow> string \<Rightarrow> string" where
  "Header_Get h key =
     (case h (CanonicalMIMEHeaderKey key) of None \<Rightarrow> [] | Some [] \<Rightarrow> [] | Some (v # vs) \<Rightarrow> v)"

definition Header_Set :: "Header \<Rightarrow> string \<Rightarrow> string \<Rightarrow> Header" where
  "Header_Set h key v = h(CanonicalMIMEHeaderKey key \<mapsto> [v])"

definition Header_Add :: "Header \<Rightarrow> string \<Rightarrow> string \<Rightarrow> Header" where
  "Header_Add h key v =
     h(CanonicalMIMEHeaderKey key \<mapsto>
         (case h (CanonicalMIMEHeaderKey key) of None \<Rightarrow> [] | Some vs \<Rightarrow> vs) @ [v])"

definition Header_Del :: "Header \<Rightarrow> string \<Rightarrow> Header" where
  "Header_Del h key = h(CanonicalMIMEHeaderKey key := None)"

text \<open>\<^verbatim>\<open>url.URL\<close>: \<^verbatim>\<open>IsAbs\<close>, \<^verbatim>\<open>Hostname\<close> (through \<^verbatim>\<open>splitHostPort\<close>) and \<^verbatim>\<open>RequestURI\<close>.\<close>

definition IsAbs :: "URL \<Rightarrow> bool" where
  "IsAbs u \<longleftrightarrow> Scheme u \<noteq> []"

definition validOptionalPort :: "string \<Rightarrow> bool" where
  "validOptionalPort port =
     (case port of [] \<Rightarrow> True
      | c # cs \<Rightarrow> if c \<noteq> CHR '':'' then False else list_all isDigit cs)"

definition LastIndexByte :: "string \<Rightarrow> char \<Rightarrow> nat option" where
  "LastIndexByte s c =
     (if List.member s c
      then Some (length s - 1 - length (takeWhile (\<lambda>x. x \<noteq> c) (rev s)))
      else None)"

definition splitHostPort :: "string \<Rightarrow> string \<times> string" where
  "splitHostPort hostPort =
     (let (host, port) =
            (case LastIndexByte hostPort CHR '':'' of
               None \<Rightarrow> (hostPort, [])
             | Some colon \<Rightarrow>
                 if validOptionalPort (drop colon hostPort)
                 then (take colon hostPort, drop (colon + 1) hostPort)
                 else (hostPort, []));
          host' = (if host \<noteq> [] \<and> hd host = CHR ''['' \<and> last host = CHR '']''
                   then take (length host - 2) (drop 1 host) else host)
      in (host', port))"

definition Hostname :: "URL \<Rightarrow> string" where
  "Hostname u = fst (splitHostPort (Host u))"

definition URL_RequestURI :: "URL \<Rightarrow> string" where
  "URL_RequestURI u =
     (let result =
            (if Opaque u = []
             then (if EscapedPath u = [] then ''/'' else EscapedPath u)
             else if take 2 (Opaque u) = ''//'' then Scheme u @ '':'' @ Opaque u
             else Opaque u)
      in if ForceQuery u \<or> RawQuery u \<noteq> [] then result @ ''?'' @ RawQuery u else result)"

section \<open>ctx.go\<close>

subsection \<open>sendRequestManually\<close>

definition CRLF :: string where
  "CRLF = [CHR 0x0D, CHR 0x0A]"

text \<open>The two nested loops over \<^verbatim>\<open>req.Header\<close>, the keys in the order the runtime gives.\<close>

definition header_lines :: "Header \<Rightarrow> string list \<Rightarrow> string list" where
  "header_lines h ks =
     concat (map (\<lambda>name. map (\<lambda>v. name @ '': '' @ v @ CRLF)
                            (case h name of None \<Rightarrow> [] | Some vs \<Rightarrow> vs)) ks)"

definition request_line :: "Request \<Rightarrow> string" where
  "request_line req = Method req @ '' '' @ URL_RequestURI (URL req) @ '' HTTP/1.1'' @ CRLF"

text \<open>Everything the three \<^verbatim>\<open>Fprintf\<close>/\<^verbatim>\<open>Fprint\<close> statements write to the connection.\<close>

definition written :: "Request \<Rightarrow> string list \<Rightarrow> string" where
  "written req ks = request_line req @ concat (header_lines (Header req) ks) @ CRLF"

text \<open>The mutation of the request at the head of the function, before the dial.\<close>

definition prepare :: "Request \<Rightarrow> Request" where
  "prepare req =
     (let req1 = req\<lparr>Header := Header_Set (Header req) ''Host'' (Hostname (URL req))\<rparr>;
          u = URL req1
      in if \<not> List.member (Host u) CHR '':''
         then (if Scheme u = ''https''
               then req1\<lparr>URL := u\<lparr>Host := Host u @ '':443''\<rparr>\<rparr>
               else req1\<lparr>URL := u\<lparr>Host := Host u @ '':80''\<rparr>\<rparr>)
         else req1)"

text \<open>
  The result is Go's pair \<^verbatim>\<open>(resp, err)\<close>. The connection is never closed, and what
  \<^verbatim>\<open>Fprintf\<close> returns is dropped, as in the source.
\<close>

definition sendRequestManually ::
  "env \<Rightarrow> ref \<Rightarrow> state \<Rightarrow> (fault + (ref option \<times> string option)) \<times> state" where
  "sendRequestManually E r s0 =
     (let s = emit (EvSendRequestManually r) s0 in
      case requests (hp s) r of
        None \<Rightarrow> (Inl NilDeref, s)
      | Some req0 \<Rightarrow>
          let req = prepare req0;
              s1 = set_request r req s;
              tls = (Scheme (URL req) = ''https'');
              s2 = emit (EvDial tls (Host (URL req))) s1
          in (case dial E tls (Host (URL req)) of
                Some err \<Rightarrow> (Inr (None, Some err), s2)
              | None \<Rightarrow>
                  let bytes = written req (rangeKeys E (Header req));
                      s3 = emit (EvWrite (Host (URL req)) bytes) s2
                  in (case ReadResponse E (Host (URL req)) bytes of
                        Inl err \<Rightarrow> (Inr (None, Some err), s3)
                      | Inr (p, resp) \<Rightarrow> (Inr (Some p, None), set_response p resp s3))))"

subsection \<open>ProxyCtx.RoundTrip\<close>

text \<open>The body of the method is the one call; the test of \<^verbatim>\<open>ctx.RoundTripper\<close> is commented out.\<close>

definition RoundTrip ::
  "env \<Rightarrow> ref \<Rightarrow> state \<Rightarrow> (fault + (ref option \<times> string option)) \<times> state" where
  "RoundTrip E req s = sendRequestManually E req s"

subsection \<open>ProxyCtx.Charset\<close>

text \<open>
  \<^verbatim>\<open>charsetFinder.FindStringSubmatch\<close> for the pattern \<^verbatim>\<open>charset=([^ ;]*)\<close>: the leftmost
  occurrence of \<^verbatim>\<open>charset=\<close>, then the longest run of bytes that are neither a space nor a
  semicolon. The result is the whole match and the group, or nil.
\<close>

fun FindStringSubmatch :: "string \<Rightarrow> string list option" where
  "FindStringSubmatch [] = None"
| "FindStringSubmatch (c # cs) =
     (if take 8 (c # cs) = ''charset=''
      then (let g = takeWhile (\<lambda>x. x \<noteq> CHR '' '' \<and> x \<noteq> CHR '';'') (drop 8 (c # cs))
            in Some [''charset='' @ g, g])
      else FindStringSubmatch cs)"

definition Charset :: "heap \<Rightarrow> fault + string" where
  "Charset h =
     (case Resp (ctx h) of
        None \<Rightarrow> Inl NilDeref
      | Some p \<Rightarrow>
          (case responses h p of
             None \<Rightarrow> Inl NilDeref
           | Some resp \<Rightarrow>
               (case FindStringSubmatch (Header_Get (RespHeader resp) ''Content-Type'') of
                  None \<Rightarrow> Inr []
                | Some charsets \<Rightarrow> Inr (charsets ! 1))))"

section \<open>proxy.go\<close>

subsection \<open>copyHeaders\<close>

text \<open>
  Both loops range over a map. \<^verbatim>\<open>dst.Del(k)\<close> deletes the canonical form of \<open>k\<close>, and
  \<^verbatim>\<open>dst.Add(k, v)\<close> appends under the canonical form of \<open>k\<close>.
\<close>

definition copyHeaders :: "(Header \<Rightarrow> string list) \<Rightarrow> Header \<Rightarrow> Header \<Rightarrow> bool \<Rightarrow> Header" where
  "copyHeaders keys dst src keepDestHeaders =
     (let dst1 = (if \<not> keepDestHeaders then foldl Header_Del dst (keys dst) else dst)
      in foldl (\<lambda>d k. foldl (\<lambda>d' v. Header_Add d' k v) d
                         (case src k of None \<Rightarrow> [] | Some vs \<Rightarrow> vs))
               dst1 (keys src))"

subsection \<open>filterRequest\<close>

text \<open>
  The loop over \<^verbatim>\<open>proxy.reqHandlers\<close>. \<open>r\<close> is the parameter of \<^verbatim>\<open>filterRequest\<close>, which the
  loop passes to every handler; the pair is the named result \<^verbatim>\<open>(req, resp)\<close>, assigned by
  each call. A non-nil \<^verbatim>\<open>resp\<close> breaks the loop.
\<close>

fun filterRequest_loop ::
  "ReqHandler list \<Rightarrow> nat \<Rightarrow> ref \<Rightarrow> ref \<times> ref option \<Rightarrow> state \<Rightarrow> (ref \<times> ref option) \<times> state" where
  "filterRequest_loop [] i r res s = (res, s)"
| "filterRequest_loop (h # hs) i r res s =
     (let (res', hp') = h r (hp s);
          s' = emit (EvReqHandler i r) (s\<lparr>hp := hp'\<rparr>)
      in if snd res' \<noteq> None then (res', s')
         else filterRequest_loop hs (Suc i) r res' s')"

definition filterRequest ::
  "ProxyHttpServer \<Rightarrow> ref \<Rightarrow> state \<Rightarrow> (ref \<times> ref option) \<times> state" where
  "filterRequest proxy r s = filterRequest_loop (reqHandlers proxy) 0 r (r, None) s"

subsection \<open>filterResponse\<close>

text \<open>Before each call \<^verbatim>\<open>ctx.Resp\<close> is set to the current response.\<close>

fun filterResponse_loop ::
  "RespHandler list \<Rightarrow> nat \<Rightarrow> ref option \<Rightarrow> state \<Rightarrow> ref option \<times> state" where
  "filterResponse_loop [] i resp s = (resp, s)"
| "filterResponse_loop (h # hs) i resp s =
     (let hp1 = (hp s)\<lparr>ctx := (ctx (hp s))\<lparr>Resp := resp\<rparr>\<rparr>;
          (resp', hp2) = h resp hp1
      in filterResponse_loop hs (Suc i) resp' (emit (EvRespHandler i resp) (s\<lparr>hp := hp2\<rparr>)))"

definition filterResponse ::
  "ProxyHttpServer \<Rightarrow> ref option \<Rightarrow> state \<Rightarrow> ref option \<times> state" where
  "filterResponse proxy respOrig s = filterResponse_loop (respHandlers proxy) 0 respOrig s"

subsection \<open>removeProxyHeaders\<close>

text \<open>What the function does to the request object. The deletion of \<^verbatim>\<open>Connection\<close> is commented out.\<close>

definition sanitize :: "Request \<Rightarrow> Request" where
  "sanitize r0 =
     (let r1 = r0\<lparr>RequestURI := []\<rparr>;
          r2 = r1\<lparr>Header := Header_Del (Header r1) ''Accept-Encoding''\<rparr>;
          r3 = r2\<lparr>Header := Header_Del (Header r2) ''Proxy-Connection''\<rparr>;
          r4 = r3\<lparr>Header := Header_Del (Header r3) ''Proxy-Authenticate''\<rparr>;
          r5 = r4\<lparr>Header := Header_Del (Header r4) ''Proxy-Authorization''\<rparr>
      in if Header_Get (Header r5) ''Connection'' = ''close'' then r5\<lparr>Close := False\<rparr> else r5)"

definition removeProxyHeaders :: "ref \<Rightarrow> state \<Rightarrow> fault option \<times> state" where
  "removeProxyHeaders r s0 =
     (let s = emit (EvRemoveProxyHeaders r) s0 in
      case requests (hp s) r of
        None \<Rightarrow> (Some NilDeref, s)
      | Some req \<Rightarrow> (None, set_request r (sanitize req) s))"

subsection \<open>ServeHTTP\<close>

datatype outcome = Tunnelled | FellBack | Failed500 | Streamed | Panicked

text \<open>A collaborator that receives \<^verbatim>\<open>w\<close> and pointers into the stores.\<close>

definition call :: "Handler \<Rightarrow> ref \<Rightarrow> state \<Rightarrow> state" where
  "call f r s = (let (w', hp') = f r (rw s, hp s) in s\<lparr>hp := hp', rw := w'\<rparr>)"

text \<open>
  The block under \<^verbatim>\<open>if resp == nil\<close>, entered when no request filter produced a response:
  the websocket test, the sanitizer, the round trip, and the handling of its error. The
  result is the value of \<^verbatim>\<open>resp\<close> at the end of the block.
\<close>

definition forward ::
  "ProxyHttpServer \<Rightarrow> env \<Rightarrow> ref \<Rightarrow> state \<Rightarrow> (fault + ref option) \<times> state" where
  "forward proxy E r s =
     (case requests (hp s) r of
        None \<Rightarrow> (Inl NilDeref, s)
      | Some req \<Rightarrow>
          let s1 = (if isWebSocketRequest E req
                    then call (serveWebsocket E) r (emit (EvServeWebsocket r) s)
                    else s)
          in (case (if \<not> KeepHeader proxy then removeProxyHeaders r s1 else (None, s1)) of
                (Some f, s2) \<Rightarrow> (Inl f, s2)
              | (None, s2) \<Rightarrow>
                  (case RoundTrip E r s2 of
                     (Inl f, s3) \<Rightarrow> (Inl f, s3)
                   | (Inr (resp, err), s3) \<Rightarrow>
                       (case err of
                          None \<Rightarrow> (Inr resp, s3)
                        | Some e \<Rightarrow>
                            let s4 = s3\<lparr>hp := (hp s3)\<lparr>ctx := (ctx (hp s3))\<lparr>Error := Some e\<rparr>\<rparr>\<rparr>;
                                (resp', s5) = filterResponse proxy None s4
                            in (Inr resp', s5)))))"

text \<open>\<^verbatim>\<open>defer origBody.Close()\<close> runs when the function returns, if it was registered.\<close>

definition deferred_close :: "ref option \<Rightarrow> outcome \<times> state \<Rightarrow> outcome \<times> state" where
  "deferred_close origBody res =
     (case origBody of None \<Rightarrow> res | Some b \<Rightarrow> (fst res, emit (EvClose b) (snd res)))"

text \<open>The end of the function, once the final response exists: headers, status, body.\<close>

definition stream :: "ProxyHttpServer \<Rightarrow> env \<Rightarrow> ref option \<Rightarrow> ref \<Rightarrow> Response \<Rightarrow> state \<Rightarrow> state" where
  "stream proxy E origBody p resp s =
     (let resp1 = (if origBody \<noteq> Some (Body resp)
                   then resp\<lparr>RespHeader := Header_Del (RespHeader resp) ''Content-Length''\<rparr>
                   else resp);
          s1 = set_response p resp1 s;
          w1 = (rw s1)\<lparr>WHeader := copyHeaders (rangeKeys E) (WHeader (rw s1)) (RespHeader resp1)
                                     (KeepDestinationHeaders proxy)\<rparr>;
          w2 = w1\<lparr>WCode := Some (StatusCode resp1)\<rparr>;
          flush = (Header_Get (WHeader w2) ''content-type'' = ''text/event-stream'');
          s2 = emit (EvCopy (Body resp1) flush) (s1\<lparr>rw := w2\<rparr>)
      in emit (EvClose (Body resp1)) s2)"

text \<open>
  From \<^verbatim>\<open>var origBody io.ReadCloser\<close> to the end: \<open>r\<close> and \<open>resp\<close> are the request and the
  response as they stand after the request filters and, if it ran, the block above.
\<close>

definition deliver ::
  "ProxyHttpServer \<Rightarrow> env \<Rightarrow> ref \<Rightarrow> ref option \<Rightarrow> state \<Rightarrow> outcome \<times> state" where
  "deliver proxy E r resp s =
     (case (case resp of
              None \<Rightarrow> Inr None
            | Some p \<Rightarrow> (case responses (hp s) p of
                           None \<Rightarrow> Inl NilDeref
                         | Some x \<Rightarrow> Inr (Some (Body x)))) of
        Inl f \<Rightarrow> (Panicked, s)
      | Inr origBody \<Rightarrow>
          deferred_close origBody
            (let (resp', s1) = filterResponse proxy resp s in
             case resp' of
               None \<Rightarrow>
                 (case requests (hp s1) r of
                    None \<Rightarrow> (Panicked, s1)
                  | Some req \<Rightarrow>
                      (case Error (ctx (hp s1)) of
                         Some e \<Rightarrow> (Failed500, emit (EvHttpError e 500) s1)
                       | None \<Rightarrow>
                           (Failed500,
                            emit (EvHttpError (''error read response '' @ Host (URL req)) 500) s1)))
             | Some p' \<Rightarrow>
                 (case responses (hp s1) p' of
                    None \<Rightarrow> (Panicked, s1)
                  | Some x \<Rightarrow> (Streamed, stream proxy E origBody p' x s1))))"

text \<open>
  \<^verbatim>\<open>ctx := &ProxyCtx{Req: r, Session: atomic.AddInt64(&proxy.sess, 1), Proxy: proxy}\<close>:
  the counter wraps as an \<^verbatim>\<open>int64\<close> does, the other fields have their zero values.
\<close>

definition new_context :: "ref \<Rightarrow> state \<Rightarrow> state" where
  "new_context r s =
     (let n = sess s + 1
      in s\<lparr>sess := n,
           hp := (hp s)\<lparr>ctx := \<lparr>Req = r, Resp = None, RoundTripper = None, Error = None,
                                 UserData = None, Session = n\<rparr>\<rparr>\<rparr>)"

definition ServeHTTP :: "ProxyHttpServer \<Rightarrow> env \<Rightarrow> ref \<Rightarrow> state \<Rightarrow> outcome \<times> state" where
  "ServeHTTP proxy E r s =
     (case requests (hp s) r of
        None \<Rightarrow> (Panicked, s)
      | Some req \<Rightarrow>
          if Method req = ''CONNECT''
          then (Tunnelled, call (handleHttps E) r (emit (EvHandleHttps r) s))
          else
            let s1 = new_context r s
            in if \<not> IsAbs (URL req)
               then (FellBack, call (NonproxyHandler proxy) r (emit (EvNonproxyHandler r) s1))
               else
                 (let ((r', resp), s2) = filterRequest proxy r s1 in
                  case (if resp = None then forward proxy E r' s2 else (Inr resp, s2)) of
                    (Inl f, s3) \<Rightarrow> (Panicked, s3)
                  | (Inr resp', s3) \<Rightarrow> deliver proxy E r' resp' s3))"

section \<open>Concrete requests, servers and networks\<close>

text \<open>
  \<^verbatim>\<open>GET http://example.test/\<close> with the header \<^verbatim>\<open>Connection: close\<close>, as the server hands it
  to \<^verbatim>\<open>ServeHTTP\<close> at address 0; an origin that answers \<^verbatim>\<open>200 OK\<close>; networks where the
  dial or the parse fails.
\<close>

definition ex_url :: URL where
  "ex_url = \<lparr>Scheme = ''http'', Opaque = [], Host = ''example.test'', EscapedPath = ''/'',
             ForceQuery = False, RawQuery = []\<rparr>"

definition ex_request :: Request where
  "ex_request = \<lparr>Method = ''GET'', URL = ex_url, Header = [''Connection'' \<mapsto> [''close'']],
                 Close = True, RequestURI = ''http://example.test/''\<rparr>"

definition ex_ctx :: ProxyCtx where
  "ex_ctx = \<lparr>Req = 0, Resp = None, RoundTripper = None, Error = None, UserData = None,
             Session = 0\<rparr>"

definition ex_state :: state where
  "ex_state = \<lparr>hp = \<lparr>requests = [0 \<mapsto> ex_request], responses = Map.empty, ctx = ex_ctx\<rparr>,
               rw = \<lparr>WHeader = Map.empty, WCode = None\<rparr>, sess = 0, trace = []\<rparr>"

definition ex_response :: Response where
  "ex_response = \<lparr>Status = ''200 OK'', StatusCode = 200,
                  RespHeader = [''Content-Length'' \<mapsto> [''5''],
                                ''Content-Type'' \<mapsto> [''text/html; charset=ISO-8859-1'']],
                  Body = 3\<rparr>"

definition ex_env :: env where
  "ex_env = \<lparr>handleHttps = (\<lambda>r x. x), isWebSocketRequest = (\<lambda>req. False),
             serveWebsocket = (\<lambda>r x. x), dial = (\<lambda>t a. None),
             ReadResponse = (\<lambda>a b. Inr (7, ex_response)),
             rangeKeys = (\<lambda>h. [''Host'', ''Connection''])\<rparr>"

definition ex_env_refused :: env where
  "ex_env_refused = ex_env\<lparr>dial := (\<lambda>t a. Some ''connection refused'')\<rparr>"

definition ex_env_eof :: env where
  "ex_env_eof = ex_env\<lparr>ReadResponse := (\<lambda>a b. Inl ''unexpected EOF'')\<rparr>"

text \<open>A server with no request filter and one response filter, which returns what it is given.\<close>

definition ex_proxy :: ProxyHttpServer where
  "ex_proxy = \<lparr>KeepDestinationHeaders = False, KeepHeader = False, NonproxyHandler = (\<lambda>r x. x),
               reqHandlers = [], respHandlers = [\<lambda>resp h. (resp, h)]\<rparr>"

definition ex_proxy_keep :: ProxyHttpServer where
  "ex_proxy_keep = ex_proxy\<lparr>KeepHeader := True\<rparr>"

text \<open>The tunnel collaborator recognises the request as a websocket upgrade.\<close>

definition ex_env_ws :: env where
  "ex_env_ws = ex_env_refused\<lparr>isWebSocketRequest := (\<lambda>req. True)\<rparr>"

text \<open>
  Request filters: one that passes the request on, one that returns a new request object
  (a \<^verbatim>\<open>POST\<close>, at address 1), one that answers with a canned response (at address 9).
\<close>

definition ex_pass :: ReqHandler where
  "ex_pass r h = ((r, None), h)"

definition ex_replace :: ReqHandler where
  "ex_replace r h =
     ((1, None), h\<lparr>requests := (requests h)(1 \<mapsto> ex_request\<lparr>Method := ''POST''\<rparr>)\<rparr>)"

definition ex_canned :: ReqHandler where
  "ex_canned r h = ((r, Some 9), h\<lparr>responses := (responses h)(9 \<mapsto> ex_response)\<rparr>)"

definition ex_proxy_chain :: ProxyHttpServer where
  "ex_proxy_chain = ex_proxy\<lparr>reqHandlers := [ex_replace, ex_pass]\<rparr>"

definition ex_proxy_canned :: ProxyHttpServer where
  "ex_proxy_canned = ex_proxy\<lparr>reqHandlers := [ex_pass, ex_canned, ex_replace]\<rparr>"

text \<open>A response filter that puts another body object (address 4) into the response at 7.\<close>

definition ex_swap_body :: RespHandler where
  "ex_swap_body resp h = (resp, h\<lparr>responses := (responses h)(7 \<mapsto> ex_response\<lparr>Body := 4\<rparr>)\<rparr>)"

definition ex_proxy_swap :: ProxyHttpServer where
  "ex_proxy_swap = ex_proxy\<lparr>respHandlers := [ex_swap_body]\<rparr>"

text \<open>A context whose \<^verbatim>\<open>RoundTripper\<close> is set, and the capability it names.\<close>

definition ex_state_rt :: state where
  "ex_state_rt = ex_state\<lparr>hp := (hp ex_state)\<lparr>ctx := ex_ctx\<lparr>RoundTripper := Some 0\<rparr>\<rparr>\<rparr>"

definition ex_capability ::
  "nat \<Rightarrow> ref \<Rightarrow> state \<Rightarrow> (fault + (ref option \<times> string option)) \<times> state" where
  "ex_capability i req s = (Inr (None, Some ''answered by the capability''), s)"

text \<open>A request with two headers of its own, and two orders in which the runtime may range.\<close>

definition ex_request2 :: Request where
  "ex_request2 =
     ex_request\<lparr>Header := [''User-Agent'' \<mapsto> [''curl''], ''Accept'' \<mapsto> [''text/html'', ''*/*'']]\<rparr>"

definition ex_state2 :: state where
  "ex_state2 = set_request 0 ex_request2 ex_state"

definition ex_env_order1 :: env where
  "ex_env_order1 = ex_env\<lparr>rangeKeys := (\<lambda>h. [''Host'', ''User-Agent'', ''Accept''])\<rparr>"

definition ex_env_order2 :: env where
  "ex_env_order2 = ex_env\<lparr>rangeKeys := (\<lambda>h. [''Accept'', ''User-Agent'', ''Host''])\<rparr>"

section \<open>Notions used to state the properties\<close>

text \<open>
  \<^verbatim>\<open>RoundTrip\<close> as the specification describes it: the capability of the context when the
  field is set, the manual sender otherwise. \<open>caps\<close> gives the behaviour of each capability
  object.
\<close>

definition RoundTrip_spec ::
  "(nat \<Rightarrow> ref \<Rightarrow> state \<Rightarrow> (fault + (ref option \<times> string option)) \<times> state)
     \<Rightarrow> env \<Rightarrow> ref \<Rightarrow> state \<Rightarrow> (fault + (ref option \<times> string option)) \<times> state" where
  "RoundTrip_spec caps E req s =
     (case RoundTripper (ctx (hp s)) of
        Some i \<Rightarrow> caps i req s
      | None \<Rightarrow> sendRequestManually E req s)"

text \<open>The values stored under a name, and the name/value pairs in the order of a key list.\<close>

definition header_values :: "Header \<Rightarrow> string \<Rightarrow> string list" where
  "header_values h k = (case h k of None \<Rightarrow> [] | Some vs \<Rightarrow> vs)"

definition header_pairs :: "Header \<Rightarrow> string list \<Rightarrow> (string \<times> string) list" where
  "header_pairs h ks = concat (map (\<lambda>name. map (\<lambda>v. (name, v)) (header_values h name)) ks)"

definition header_line :: "string \<times> string \<Rightarrow> string" where
  "header_line p = fst p @ '': '' @ snd p @ CRLF"

text \<open>Events of the response side of the dispatcher, and the event of the sanitizer.\<close>

fun delivery_event :: "event \<Rightarrow> bool" where
  "delivery_event (EvRespHandler i resp) = True"
| "delivery_event (EvHttpError msg code) = True"
| "delivery_event (EvCopy b flush) = True"
| "delivery_event (EvClose b) = True"
| "delivery_event e = False"

fun sanitizer_event :: "event \<Rightarrow> bool" where
  "sanitizer_event (EvRemoveProxyHeaders r) = True"
| "sanitizer_event e = False"

section \<open>Canonical header keys\<close>

text \<open>The literal keys the code passes to \<^verbatim>\<open>Get\<close>, \<^verbatim>\<open>Set\<close> and \<^verbatim>\<open>Del\<close> are canonical already.\<close>

lemma canon_Host: "CanonicalMIMEHeaderKey ''Host'' = ''Host''"
  by code_simp

lemma canon_Connection: "CanonicalMIMEHeaderKey ''Connection'' = ''Connection''"
  by code_simp

lemma canon_Accept_Encoding: "CanonicalMIMEHeaderKey ''Accept-Encoding'' = ''Accept-Encoding''"
  by code_simp

lemma canon_Proxy_Connection: "CanonicalMIMEHeaderKey ''Proxy-Connection'' = ''Proxy-Connection''"
  by code_simp

lemma canon_Proxy_Authenticate:
  "CanonicalMIMEHeaderKey ''Proxy-Authenticate'' = ''Proxy-Authenticate''"
  by code_simp

lemma canon_Proxy_Authorization:
  "CanonicalMIMEHeaderKey ''Proxy-Authorization'' = ''Proxy-Authorization''"
  by code_simp

lemma canon_Content_Length: "CanonicalMIMEHeaderKey ''Content-Length'' = ''Content-Length''"
  by code_simp

lemma canon_Content_Type: "CanonicalMIMEHeaderKey ''Content-Type'' = ''Content-Type''"
  by code_simp

section \<open>Unfolding the dispatcher on concrete inputs\<close>

lemmas dispatch_defs = ServeHTTP_def new_context_def filterRequest_def forward_def
  removeProxyHeaders_def RoundTrip_def sendRequestManually_def deliver_def deferred_close_def
  filterResponse_def emit_def set_request_def set_response_def call_def Let_def IsAbs_def

section \<open>The manual transport sender mutates its request\<close>

text \<open>The head of \<^verbatim>\<open>sendRequestManually\<close>, written out.\<close>

lemma prepare_eq:
  "prepare req = req\<lparr>Header := (Header req)(''Host'' \<mapsto> [Hostname (URL req)]),
       URL := (URL req)\<lparr>Host := (if CHR '':'' \<in> set (Host (URL req)) then Host (URL req)
                                 else Host (URL req) @
                                   (if Scheme (URL req) = ''https'' then '':443'' else '':80''))\<rparr>\<rparr>"
  by (simp add: prepare_def Let_def Header_Set_def canon_Host)

lemma send_requests:
  assumes "requests (hp s) r = Some req"
  shows "requests (hp (snd (sendRequestManually E r s))) r = Some (prepare req)"
  using assms
  by (auto simp: sendRequestManually_def Let_def emit_def set_request_def set_response_def
      split: option.splits sum.splits prod.splits)

lemma send_trace:
  assumes "requests (hp s) r = Some req"
  shows "\<exists>evs. trace (snd (sendRequestManually E r s)) =
           trace s @ EvSendRequestManually r
             # EvDial (Scheme (URL (prepare req)) = ''https'') (Host (URL (prepare req))) # evs"
  using assms
  by (auto simp: sendRequestManually_def Let_def emit_def set_request_def set_response_def
      split: option.splits sum.splits prod.splits)

lemma send_dial_error:
  assumes "requests (hp s) r = Some req"
    and "dial E (Scheme (URL (prepare req)) = ''https'') (Host (URL (prepare req))) = Some err"
  shows "fst (sendRequestManually E r s) = Inr (None, Some err)"
  using assms
  by (auto simp: sendRequestManually_def Let_def emit_def set_request_def set_response_def
      split: option.splits sum.splits prod.splits)

lemma send_read_error:
  assumes "requests (hp s) r = Some req"
    and "dial E (Scheme (URL (prepare req)) = ''https'') (Host (URL (prepare req))) = None"
    and "ReadResponse E (Host (URL (prepare req)))
           (written (prepare req) (rangeKeys E (Header (prepare req)))) = Inl err"
  shows "fst (sendRequestManually E r s) = Inr (None, Some err)"
  using assms
  by (auto simp: sendRequestManually_def Let_def emit_def set_request_def set_response_def
      split: option.splits sum.splits prod.splits)

text \<open>
  Claim C10. Whatever the network does, after a call of \<^verbatim>\<open>sendRequestManually\<close> on a request
  the request object has its \<^verbatim>\<open>Host\<close> header set to the URL's hostname and, when the URL's
  host had no colon, \<^verbatim>\<open>:443\<close> (scheme \<^verbatim>\<open>https\<close>) or \<^verbatim>\<open>:80\<close> (any other scheme) appended to
  the URL's host; nothing else of the request is changed. The dial, the first network
  operation, already uses the new host, and the mutated request is what remains when the
  dial or the parse of the response fails and the call returns the error.
\<close>

theorem C10_sendRequestManually_mutates_request:
  assumes "requests (hp s) r = Some req"
  shows "let tls = (Scheme (URL req) = ''https'');
             host' = (if CHR '':'' \<in> set (Host (URL req)) then Host (URL req)
                      else Host (URL req) @ (if tls then '':443'' else '':80''));
             req' = req\<lparr>Header := (Header req)(''Host'' \<mapsto> [Hostname (URL req)]),
                        URL := (URL req)\<lparr>Host := host'\<rparr>\<rparr>;
             res = sendRequestManually E r s
         in requests (hp (snd res)) r = Some req'
          \<and> (\<exists>evs. trace (snd res) = trace s @ EvSendRequestManually r # EvDial tls host' # evs)
          \<and> (\<forall>err. dial E tls host' = Some err \<longrightarrow> fst res = Inr (None, Some err))
          \<and> (\<forall>err. dial E tls host' = None
                  \<and> ReadResponse E host' (written req' (rangeKeys E (Header req'))) = Inl err
                \<longrightarrow> fst res = Inr (None, Some err))"
proof -
  have p: "prepare req = req\<lparr>Header := (Header req)(''Host'' \<mapsto> [Hostname (URL req)]),
       URL := (URL req)\<lparr>Host := (if CHR '':'' \<in> set (Host (URL req)) then Host (URL req)
                                 else Host (URL req) @
                                   (if Scheme (URL req) = ''https'' then '':443'' else '':80''))\<rparr>\<rparr>"
    by (rule prepare_eq)
  have s: "Scheme (URL (prepare req)) = Scheme (URL req)"
    by (simp add: p)
  show ?thesis
    unfolding Let_def
    using send_requests[OF assms, of E] send_trace[OF assms, of E]
      send_dial_error[OF assms, of E] send_read_error[OF assms, of E]
    unfolding s unfolding p by simp
qed

text \<open>The request of the examples, once with a refused dial and once with a failed parse.\<close>

theorem C10_sendRequestManually_mutates_request_witness:
  "requests (hp (snd (sendRequestManually ex_env_refused 0 ex_state))) 0 =
     Some (ex_request\<lparr>Header := [''Connection'' \<mapsto> [''close''], ''Host'' \<mapsto> [''example.test'']],
                      URL := ex_url\<lparr>Host := ''example.test:80''\<rparr>\<rparr>)
   \<and> fst (sendRequestManually ex_env_refused 0 ex_state) = Inr (None, Some ''connection refused'')
   \<and> requests (hp (snd (sendRequestManually ex_env_eof 0 ex_state))) 0 =
     Some (ex_request\<lparr>Header := [''Connection'' \<mapsto> [''close''], ''Host'' \<mapsto> [''example.test'']],
                      URL := ex_url\<lparr>Host := ''example.test:80''\<rparr>\<rparr>)
   \<and> fst (sendRequestManually ex_env_eof 0 ex_state) = Inr (None, Some ''unexpected EOF'')"
proof -
  have h: "requests (hp ex_state) 0 = Some ex_request"
    by (simp add: ex_state_def)
  show ?thesis
    using C10_sendRequestManually_mutates_request[OF h, of ex_env_refused]
      C10_sendRequestManually_mutates_request[OF h, of ex_env_eof]
    by (simp add: Let_def Hostname_def splitHostPort_def LastIndexByte_def
        ex_request_def ex_url_def ex_env_refused_def ex_env_eof_def ex_env_def)
qed


section \<open>What the manual transport sender writes\<close>

lemma header_lines_pairs: "header_lines h ks = map header_line (header_pairs h ks)"
  by (simp add: header_lines_def header_pairs_def header_line_def header_values_def map_concat
      comp_def)

lemma header_pairs_filter:
  "distinct ks \<Longrightarrow>
   map snd (filter (\<lambda>p. fst p = k) (header_pairs h ks)) =
     (if k \<in> set ks then header_values h k else [])"
proof (induction ks)
  case Nil
  then show ?case by (simp add: header_pairs_def)
next
  case (Cons a ks)
  have here: "map snd (filter (\<lambda>p. fst p = k) (map (\<lambda>v. (a, v)) vs)) = (if a = k then vs else [])"
    for vs :: "string list"
    by (induction vs) auto
  from Cons show ?case
    by (auto simp: header_pairs_def here)
qed

lemma header_pairs_range:
  assumes "range_order h ks"
  shows "map snd (filter (\<lambda>p. fst p = k) (header_pairs h ks)) = header_values h k"
proof -
  from assms have d: "distinct ks" and s: "set ks = dom h"
    by (simp_all add: range_order_def)
  show ?thesis
  proof (cases "k \<in> set ks")
    case True
    with d show ?thesis by (simp add: header_pairs_filter)
  next
    case False
    with s have "h k = None" by auto
    with False d show ?thesis by (simp add: header_pairs_filter header_values_def)
  qed
qed

lemma send_written:
  assumes "requests (hp s) r = Some req0"
    and "dial E (Scheme (URL (prepare req0)) = ''https'') (Host (URL (prepare req0))) = None"
  shows "trace (snd (sendRequestManually E r s)) =
           trace s @ [EvSendRequestManually r,
                      EvDial (Scheme (URL (prepare req0)) = ''https'') (Host (URL (prepare req0))),
                      EvWrite (Host (URL (prepare req0)))
                        (written (prepare req0) (rangeKeys E (Header (prepare req0))))]"
  using assms
  by (auto simp: sendRequestManually_def Let_def emit_def set_request_def set_response_def
      split: option.splits sum.splits prod.splits)

text \<open>
  Claim C6, as amended. When the dial succeeds, \<^verbatim>\<open>sendRequestManually\<close> writes the request
  line, then one \<^verbatim>\<open>name: value\<close> line for every value stored in the header map of the
  request as the sender prepared it (with its \<^verbatim>\<open>Host\<close> header set), then the empty line.
  For every name the lines of that name carry exactly the stored values, in their stored
  order, so nothing is dropped, merged or renamed. The names come in the order in which
  the runtime ranges over the map, which is any order that lists every key once.
\<close>

theorem C6_sender_writes_every_header_value:
  assumes "requests (hp s) r = Some req0"
    and "req = prepare req0"
    and "dial E (Scheme (URL req) = ''https'') (Host (URL req)) = None"
    and "range_order (Header req) (rangeKeys E (Header req))"
  shows "\<exists>pairs.
           trace (snd (sendRequestManually E r s)) =
             trace s @ [EvSendRequestManually r,
                        EvDial (Scheme (URL req) = ''https'') (Host (URL req)),
                        EvWrite (Host (URL req))
                          (Method req @ '' '' @ URL_RequestURI (URL req) @ '' HTTP/1.1'' @ CRLF
                           @ concat (map header_line pairs) @ CRLF)]
         \<and> (\<forall>name. map snd (filter (\<lambda>p. fst p = name) pairs) = header_values (Header req) name)"
proof -
  let ?pairs = "header_pairs (Header req) (rangeKeys E (Header req))"
  have w: "written req (rangeKeys E (Header req)) =
             Method req @ '' '' @ URL_RequestURI (URL req) @ '' HTTP/1.1'' @ CRLF
               @ concat (map header_line ?pairs) @ CRLF"
    by (simp add: written_def request_line_def header_lines_pairs)
  have t: "trace (snd (sendRequestManually E r s)) =
             trace s @ [EvSendRequestManually r,
                        EvDial (Scheme (URL req) = ''https'') (Host (URL req)),
                        EvWrite (Host (URL req)) (written req (rangeKeys E (Header req)))]"
    using send_written[OF assms(1)] assms(2,3) by simp
  have "\<forall>name. map snd (filter (\<lambda>p. fst p = name) ?pairs) = header_values (Header req) name"
    using header_pairs_range[OF assms(4)] by simp
  with t w show ?thesis by auto
qed

lemma ex2_prepare:
  "prepare ex_request2 = ex_request2\<lparr>Header := [''User-Agent'' \<mapsto> [''curl''], ''Accept'' \<mapsto> [''text/html'', ''*/*''], ''Host'' \<mapsto> [''example.test'']],
      URL := ex_url\<lparr>Host := ''example.test:80''\<rparr>\<rparr>"
  by (simp add: prepare_eq ex_request2_def ex_request_def ex_url_def Hostname_def splitHostPort_def LastIndexByte_def)

lemma ex2_order1: "range_order (Header (prepare ex_request2)) [''Host'', ''User-Agent'', ''Accept'']"
  by (auto simp: ex2_prepare range_order_def)

lemma ex2_order2: "range_order (Header (prepare ex_request2)) [''Accept'', ''User-Agent'', ''Host'']"
  by (auto simp: ex2_prepare range_order_def)

text \<open>
  Claim C6 as stated fails: the header map does not hold the order in which the client sent
  the headers, and the same request is written in different orders under two orders of
  ranging, \<^verbatim>\<open>Host, User-Agent, Accept\<close> and \<^verbatim>\<open>Accept, User-Agent, Host\<close>.
\<close>

theorem C6_header_order_counterexample:
  "range_order (Header (prepare ex_request2)) (rangeKeys ex_env_order1 (Header (prepare ex_request2)))
   \<and> range_order (Header (prepare ex_request2)) (rangeKeys ex_env_order2 (Header (prepare ex_request2)))
   \<and> trace (snd (sendRequestManually ex_env_order1 0 ex_state2)) =
       [EvSendRequestManually 0, EvDial False ''example.test:80'',
        EvWrite ''example.test:80''
          (''GET / HTTP/1.1'' @ CRLF @ ''Host: example.test'' @ CRLF @ ''User-Agent: curl'' @ CRLF
           @ ''Accept: text/html'' @ CRLF @ ''Accept: */*'' @ CRLF @ CRLF)]
   \<and> trace (snd (sendRequestManually ex_env_order2 0 ex_state2)) =
       [EvSendRequestManually 0, EvDial False ''example.test:80'',
        EvWrite ''example.test:80''
          (''GET / HTTP/1.1'' @ CRLF @ ''Accept: text/html'' @ CRLF @ ''Accept: */*'' @ CRLF
           @ ''User-Agent: curl'' @ CRLF @ ''Host: example.test'' @ CRLF @ CRLF)]"
proof -
  have s: "requests (hp ex_state2) 0 = Some ex_request2" "trace ex_state2 = []"
    by (simp_all add: ex_state2_def set_request_def ex_state_def)
  have d: "dial ex_env_order1 t a = None" "dial ex_env_order2 t a = None" for t a
    by (simp_all add: ex_env_order1_def ex_env_order2_def ex_env_def)
  have k: "rangeKeys ex_env_order1 h = [''Host'', ''User-Agent'', ''Accept'']"
     "rangeKeys ex_env_order2 h = [''Accept'', ''User-Agent'', ''Host'']" for h
    by (simp_all add: ex_env_order1_def ex_env_order2_def ex_env_def)
  have w1: "written (prepare ex_request2) [''Host'', ''User-Agent'', ''Accept''] = ''GET / HTTP/1.1'' @ CRLF @ ''Host: example.test'' @ CRLF @ ''User-Agent: curl'' @ CRLF
           @ ''Accept: text/html'' @ CRLF @ ''Accept: */*'' @ CRLF @ CRLF"
    unfolding ex2_prepare
    by (simp add: written_def request_line_def header_lines_def URL_RequestURI_def
        ex_request2_def ex_request_def ex_url_def)
  have w2: "written (prepare ex_request2) [''Accept'', ''User-Agent'', ''Host''] = ''GET / HTTP/1.1'' @ CRLF @ ''Accept: text/html'' @ CRLF @ ''Accept: */*'' @ CRLF
           @ ''User-Agent: curl'' @ CRLF @ ''Host: example.test'' @ CRLF @ CRLF"
    unfolding ex2_prepare
    by (simp add: written_def request_line_def header_lines_def URL_RequestURI_def
        ex_request2_def ex_request_def ex_url_def)
  have h: "Host (URL (prepare ex_request2)) = ''example.test:80''" "Scheme (URL (prepare ex_request2)) = ''http''"
    by (simp_all add: ex2_prepare ex_url_def)
  show ?thesis
    using send_written[OF s(1) d(1)] send_written[OF s(1) d(2)] ex2_order1 ex2_order2
    by (simp add: k s(2) w1 w2 h)
qed

theorem C6_sender_writes_every_header_value_witness:
  "\<exists>pairs.
     trace (snd (sendRequestManually ex_env_order2 0 ex_state2)) =
       [EvSendRequestManually 0, EvDial False ''example.test:80'',
        EvWrite ''example.test:80''
          (''GET / HTTP/1.1'' @ CRLF @ concat (map header_line pairs) @ CRLF)]
     \<and> map snd (filter (\<lambda>p. fst p = ''Accept'') pairs) = [''text/html'', ''*/*'']
     \<and> map snd (filter (\<lambda>p. fst p = ''Host'') pairs) = [''example.test'']
     \<and> map snd (filter (\<lambda>p. fst p = ''accept'') pairs) = []"
proof -
  have s: "requests (hp ex_state2) 0 = Some ex_request2"
    by (simp add: ex_state2_def set_request_def ex_state_def)
  have k: "rangeKeys ex_env_order2 h = [''Accept'', ''User-Agent'', ''Host'']" for h
    by (simp add: ex_env_order2_def ex_env_def)
  have h: "Host (URL (prepare ex_request2)) = ''example.test:80''" "Scheme (URL (prepare ex_request2)) = ''http''"
    by (simp_all add: ex2_prepare ex_url_def)
  have d: "dial ex_env_order2 (Scheme (URL (prepare ex_request2)) = ''https'') (Host (URL (prepare ex_request2))) = None"
    by (simp add: ex_env_order2_def ex_env_def)
  have o: "range_order (Header (prepare ex_request2)) (rangeKeys ex_env_order2 (Header (prepare ex_request2)))"
    using ex2_order2 by (simp add: k)
  from C6_sender_writes_every_header_value[OF s refl d o] obtain pairs where
    p: "trace (snd (sendRequestManually ex_env_order2 0 ex_state2)) =
             trace ex_state2 @ [EvSendRequestManually 0,
                        EvDial (Scheme (URL (prepare ex_request2)) = ''https'') (Host (URL (prepare ex_request2))),
                        EvWrite (Host (URL (prepare ex_request2)))
                          (Method (prepare ex_request2) @ '' '' @ URL_RequestURI (URL (prepare ex_request2)) @ '' HTTP/1.1'' @ CRLF
                           @ concat (map header_line pairs) @ CRLF)]"
    and q: "\<And>name. map snd (filter (\<lambda>p. fst p = name) pairs) = header_values (Header (prepare ex_request2)) name"
    by blast
  have m: "Method (prepare ex_request2) @ '' '' @ URL_RequestURI (URL (prepare ex_request2)) @ '' HTTP/1.1'' = ''GET / HTTP/1.1''"
    unfolding ex2_prepare
    by (simp add: URL_RequestURI_def ex_request2_def ex_request_def ex_url_def)
  have t: "trace ex_state2 = []"
    by (simp add: ex_state2_def set_request_def ex_state_def)
  have v: "header_values (Header (prepare ex_request2)) ''Accept'' = [''text/html'', ''*/*'']"
    "header_values (Header (prepare ex_request2)) ''Host'' = [''example.test'']"
    "header_values (Header (prepare ex_request2)) ''accept'' = []"
    by (simp_all add: ex2_prepare header_values_def)
  show ?thesis
    using p q m by (intro exI[of _ pairs]) (simp add: t h v)
qed


section \<open>The round trip of the context\<close>

lemma send_ctx_indep:
  "sendRequestManually E req (s\<lparr>hp := (hp s)\<lparr>ctx := c\<rparr>\<rparr>) =
     (fst (sendRequestManually E req s),
      (snd (sendRequestManually E req s))
        \<lparr>hp := (hp (snd (sendRequestManually E req s)))\<lparr>ctx := c\<rparr>\<rparr>)"
  by (auto simp: sendRequestManually_def Let_def emit_def set_request_def set_response_def
      split: option.splits sum.splits prod.splits)

text \<open>
  Claim C5, as amended. \<^verbatim>\<open>ProxyCtx.RoundTrip\<close> always sends through the manual sender: its
  result and its network activity are those of \<^verbatim>\<open>sendRequestManually\<close> and do not depend on
  the \<^verbatim>\<open>RoundTripper\<close> field of the context, which is never read.
\<close>

theorem C5_RoundTrip_is_manual_sender:
  "RoundTrip E req s = sendRequestManually E req s
   \<and> fst (RoundTrip E req (s\<lparr>hp := (hp s)\<lparr>ctx := (ctx (hp s))\<lparr>RoundTripper := rt\<rparr>\<rparr>\<rparr>))
       = fst (RoundTrip E req s)
   \<and> trace (snd (RoundTrip E req (s\<lparr>hp := (hp s)\<lparr>ctx := (ctx (hp s))\<lparr>RoundTripper := rt\<rparr>\<rparr>\<rparr>)))
       = trace (snd (RoundTrip E req s))"
  by (simp add: RoundTrip_def send_ctx_indep)

text \<open>
  Claim C5 as stated fails: with the field set to a capability that answers by itself, the
  call still dials the origin and returns the dial's error.
\<close>

theorem C5_RoundTripper_ignored_counterexample:
  "RoundTripper (ctx (hp ex_state_rt)) = Some 0
   \<and> fst (RoundTrip_spec ex_capability ex_env_refused 0 ex_state_rt)
       = Inr (None, Some ''answered by the capability'')
   \<and> fst (RoundTrip ex_env_refused 0 ex_state_rt) = Inr (None, Some ''connection refused'')
   \<and> trace (snd (RoundTrip ex_env_refused 0 ex_state_rt))
       = [EvSendRequestManually 0, EvDial False ''example.test:80'']"
  by (simp add: RoundTrip_spec_def ex_capability_def ex_state_rt_def ex_state_def ex_ctx_def
      ex_env_refused_def ex_env_def ex_request_def ex_url_def prepare_eq dispatch_defs)

section \<open>Charset\<close>

text \<open>The scenario of the specification: the charset of a response is found, and a response
  without \<^verbatim>\<open>Content-Type\<close> gives the empty string.\<close>

lemma Charset_found:
  "Charset \<lparr>requests = Map.empty, responses = [7 \<mapsto> ex_response], ctx = ex_ctx\<lparr>Resp := Some 7\<rparr>\<rparr>
     = Inr ''ISO-8859-1''"
  by (simp add: Charset_def ex_ctx_def ex_response_def Header_Get_def canon_Content_Type Let_def)

lemma Charset_no_header:
  "Charset \<lparr>requests = Map.empty, responses = [7 \<mapsto> ex_response\<lparr>RespHeader := Map.empty\<rparr>],
            ctx = ex_ctx\<lparr>Resp := Some 7\<rparr>\<rparr> = Inr []"
  by (simp add: Charset_def ex_ctx_def ex_response_def Header_Get_def canon_Content_Type Let_def)

text \<open>
  Claim C3. With no response yet (\<^verbatim>\<open>ctx.Resp\<close> is nil), \<^verbatim>\<open>Charset\<close> does not return the empty
  string: \<^verbatim>\<open>ctx.Resp.Header\<close> dereferences the nil pointer.
\<close>

theorem C3_Charset_faults_without_response:
  "Resp (ctx (hp ex_state)) = None \<and> Charset (hp ex_state) = Inl NilDeref"
  by (simp add: Charset_def ex_state_def ex_ctx_def)

section \<open>The filter chains\<close>

lemma filterRequest_loop_prefix:
  "filterRequest_loop pre i r res s = ((q0, None), sk) \<Longrightarrow>
   filterRequest_loop (pre @ rest) i r res s = filterRequest_loop rest (i + length pre) r (q0, None) sk
   \<and> trace sk = trace s @ map (\<lambda>j. EvReqHandler j r) [i..<i + length pre]"
proof (induction pre arbitrary: i res s)
  case Nil
  then show ?case by simp
next
  case (Cons h pre)
  obtain res' hp' where h: "h r (hp s) = (res', hp')"
    by (cases "h r (hp s)")
  let ?s' = "emit (EvReqHandler i r) (s\<lparr>hp := hp'\<rparr>)"
  from Cons.prems h have none: "snd res' = None"
    by (auto simp: Let_def split: if_splits)
  with Cons.prems h have rest: "filterRequest_loop pre (Suc i) r res' ?s' = ((q0, None), sk)"
    by (simp add: Let_def)
  from Cons.IH[OF rest] have
    a: "filterRequest_loop (pre @ rest) (Suc i) r res' ?s' =
          filterRequest_loop rest (Suc i + length pre) r (q0, None) sk"
    and b: "trace sk = trace ?s' @ map (\<lambda>j. EvReqHandler j r) [Suc i..<Suc i + length pre]"
    by simp_all
  have t: "trace ?s' = trace s @ [EvReqHandler i r]"
    by (simp add: emit_def)
  have u: "[i..<i + length (h # pre)] = i # [Suc i..<Suc i + length pre]"
  proof -
    have "i < i + length (h # pre)" by simp
    then have "[i..<i + length (h # pre)] = i # [Suc i..<i + length (h # pre)]"
      by (rule upt_conv_Cons)
    moreover have "i + length (h # pre) = Suc i + length pre" by simp
    ultimately show ?thesis by (simp only:)
  qed
  have tr: "trace sk = trace s @ map (\<lambda>j. EvReqHandler j r) [i..<i + length (h # pre)]"
    unfolding u using b t by simp
  have "filterRequest_loop ((h # pre) @ rest) i r res s =
          filterRequest_loop rest (i + length (h # pre)) r (q0, None) sk"
    using a h none by (simp add: Let_def)
  with tr show ?case by blast
qed

lemma filterResponse_loop_trace:
  "\<exists>evs. trace (snd (filterResponse_loop hs i resp s)) = trace s @ evs
         \<and> list_all delivery_event evs
         \<and> (hs \<noteq> [] \<longrightarrow> evs \<noteq> [] \<and> hd evs = EvRespHandler i resp)"
proof (induction hs arbitrary: i resp s)
  case Nil
  then show ?case by simp
next
  case (Cons h hs)
  obtain resp' hp2 where h: "h resp ((hp s)\<lparr>ctx := (ctx (hp s))\<lparr>Resp := resp\<rparr>\<rparr>) = (resp', hp2)"
    by (cases "h resp ((hp s)\<lparr>ctx := (ctx (hp s))\<lparr>Resp := resp\<rparr>\<rparr>)")
  let ?s' = "emit (EvRespHandler i resp) (s\<lparr>hp := hp2\<rparr>)"
  from Cons.IH[of "Suc i" resp' ?s'] obtain evs where
    e: "trace (snd (filterResponse_loop hs (Suc i) resp' ?s')) = trace ?s' @ evs"
    and d: "list_all delivery_event evs"
    by blast
  have "trace (snd (filterResponse_loop (h # hs) i resp s)) = trace s @ EvRespHandler i resp # evs"
    using h e by (simp add: Let_def emit_def)
  with d show ?case
    by (intro exI[of _ "EvRespHandler i resp # evs"]) simp
qed

text \<open>
  Claim C7. Two request filters: the first returns a new request object (address 1), the
  second returns the request it is given. The second is called with the inbound request
  (address 0), not with the first filter's result, and the inbound request is what the chain
  returns.
\<close>

theorem C7_second_filter_gets_inbound_request:
  "fst (ex_replace 0 (hp (new_context 0 ex_state))) = (1, None)
   \<and> fst (filterRequest ex_proxy_chain 0 (new_context 0 ex_state)) = (0, None)
   \<and> trace (snd (filterRequest ex_proxy_chain 0 (new_context 0 ex_state)))
       = [EvReqHandler 0 0, EvReqHandler 1 0]"
  by (simp add: ex_proxy_chain_def ex_replace_def ex_proxy_def ex_state_def ex_ctx_def
      ex_request_def ex_url_def ex_pass_def dispatch_defs)


section \<open>The dispatcher\<close>

lemma deliver_trace:
  "\<exists>evs. trace (snd (deliver proxy E r resp s)) = trace s @ evs
         \<and> list_all delivery_event evs
         \<and> (respHandlers proxy \<noteq> [] \<and> fst (deliver proxy E r resp s) \<noteq> Panicked
              \<longrightarrow> evs \<noteq> [] \<and> hd evs = EvRespHandler 0 resp)"
proof (cases "case resp of None \<Rightarrow> Inr None
              | Some p \<Rightarrow> (case responses (hp s) p of None \<Rightarrow> Inl NilDeref
                           | Some x \<Rightarrow> Inr (Some (Body x)))")
  case (Inl f)
  then show ?thesis by (simp add: deliver_def)
next
  case (Inr origBody)
  obtain resp' s1 where f: "filterResponse proxy resp s = (resp', s1)"
    by (cases "filterResponse proxy resp s")
  from filterResponse_loop_trace[of "respHandlers proxy" 0 resp s] f obtain evs where
    e: "trace s1 = trace s @ evs" and d: "list_all delivery_event evs"
    and hd: "respHandlers proxy \<noteq> [] \<longrightarrow> evs \<noteq> [] \<and> hd evs = EvRespHandler 0 resp"
    by (auto simp: filterResponse_def)
  define inner where "inner =
    (case resp' of
       None \<Rightarrow>
         (case requests (hp s1) r of
            None \<Rightarrow> (Panicked, s1)
          | Some req \<Rightarrow>
              (case Error (ctx (hp s1)) of
                 Some e \<Rightarrow> (Failed500, emit (EvHttpError e 500) s1)
               | None \<Rightarrow>
                   (Failed500,
                    emit (EvHttpError (''error read response '' @ Host (URL req)) 500) s1)))
     | Some p' \<Rightarrow>
         (case responses (hp s1) p' of
            None \<Rightarrow> (Panicked, s1)
          | Some x \<Rightarrow> (Streamed, stream proxy E origBody p' x s1)))"
  have i: "\<exists>tl. trace (snd inner) = trace s1 @ tl \<and> list_all delivery_event tl"
    by (auto simp: inner_def stream_def emit_def set_response_def Let_def split: option.splits)
  then obtain tl where tl: "trace (snd inner) = trace s1 @ tl" "list_all delivery_event tl"
    by blast
  have del: "deliver proxy E r resp s = deferred_close origBody inner"
    using Inr f by (simp add: deliver_def inner_def)
  have c: "\<exists>cl. trace (snd (deferred_close origBody inner)) = trace (snd inner) @ cl
                \<and> list_all delivery_event cl"
    by (cases origBody) (simp_all add: deferred_close_def emit_def)
  then obtain cl where cl: "trace (snd (deferred_close origBody inner)) = trace (snd inner) @ cl"
    "list_all delivery_event cl"
    by blast
  have "trace (snd (deliver proxy E r resp s)) = trace s @ (evs @ tl @ cl)"
    using del cl(1) tl(1) e by simp
  moreover have "list_all delivery_event (evs @ tl @ cl)"
    using d tl(2) cl(2) by simp
  moreover have "respHandlers proxy \<noteq> [] \<longrightarrow> evs @ tl @ cl \<noteq> [] \<and> hd (evs @ tl @ cl) = EvRespHandler 0 resp"
    using hd by auto
  ultimately show ?thesis by blast
qed

text \<open>
  Claim C2. Let filter number \<open>length pre\<close> be the first request filter to return a response
  \<open>c\<close>. Then the request chain stops there: the request filters called are those numbered
  0 to \<open>length pre\<close>, once each and in this order. \<^verbatim>\<open>ServeHTTP\<close> goes on exactly as the response
  side of the dispatcher started on \<open>c\<close>, so that every later event is a response filter call,
  an error reply, a body copy or a close: the sanitizer and the transport sender are not
  called, nothing is dialled or written, and the first response filter receives \<open>c\<close>.
\<close>

theorem C2_canned_response_short_circuits:
  assumes "requests (hp s) r = Some req" and "Method req \<noteq> ''CONNECT''" and "IsAbs (URL req)"
    and "reqHandlers proxy = pre @ h # post"
    and "filterRequest_loop pre 0 r (r, None) (new_context r s) = ((q0, None), sk)"
    and "h r (hp sk) = ((q, Some c), hk)"
  shows "let s' = emit (EvReqHandler (length pre) r) (sk\<lparr>hp := hk\<rparr>) in
           filterRequest proxy r (new_context r s) = ((q, Some c), s')
         \<and> trace s' = trace s @ map (\<lambda>j. EvReqHandler j r) [0..<Suc (length pre)]
         \<and> ServeHTTP proxy E r s = deliver proxy E q (Some c) s'
         \<and> (\<exists>evs. trace (snd (ServeHTTP proxy E r s)) = trace s' @ evs
                 \<and> list_all delivery_event evs
                 \<and> (respHandlers proxy \<noteq> [] \<and> fst (ServeHTTP proxy E r s) \<noteq> Panicked
                      \<longrightarrow> hd evs = EvRespHandler 0 (Some c)))"
proof -
  let ?s' = "emit (EvReqHandler (length pre) r) (sk\<lparr>hp := hk\<rparr>)"
  from filterRequest_loop_prefix[OF assms(5), of "h # post"]
  have p: "filterRequest_loop (pre @ h # post) 0 r (r, None) (new_context r s) =
             filterRequest_loop (h # post) (length pre) r (q0, None) sk"
    and t: "trace sk = trace (new_context r s) @ map (\<lambda>j. EvReqHandler j r) [0..<length pre]"
    by simp_all
  have fr: "filterRequest proxy r (new_context r s) = ((q, Some c), ?s')"
    using p assms(4,6) by (simp add: filterRequest_def Let_def)
  have tr: "trace ?s' = trace s @ map (\<lambda>j. EvReqHandler j r) [0..<Suc (length pre)]"
    using t by (simp add: emit_def new_context_def Let_def)
  have sv: "ServeHTTP proxy E r s = deliver proxy E q (Some c) ?s'"
    using assms(1,2,3) fr by (simp add: ServeHTTP_def Let_def)
  from deliver_trace[of proxy E q "Some c" ?s'] obtain evs where
    "trace (snd (deliver proxy E q (Some c) ?s')) = trace ?s' @ evs"
    "list_all delivery_event evs"
    "respHandlers proxy \<noteq> [] \<and> fst (deliver proxy E q (Some c) ?s') \<noteq> Panicked
       \<longrightarrow> evs \<noteq> [] \<and> hd evs = EvRespHandler 0 (Some c)"
    by blast
  then have "\<exists>evs. trace (snd (ServeHTTP proxy E r s)) = trace ?s' @ evs
                 \<and> list_all delivery_event evs
                 \<and> (respHandlers proxy \<noteq> [] \<and> fst (ServeHTTP proxy E r s) \<noteq> Panicked
                      \<longrightarrow> hd evs = EvRespHandler 0 (Some c))"
    unfolding sv by blast
  with fr tr sv show ?thesis
    unfolding Let_def by blast
qed


theorem C2_canned_response_short_circuits_witness:
  "filterRequest ex_proxy_canned 0 (new_context 0 ex_state) =
     ((0, Some 9),
      emit (EvReqHandler 1 0)
        ((emit (EvReqHandler 0 0) (new_context 0 ex_state))
           \<lparr>hp := (hp (new_context 0 ex_state))\<lparr>responses := [9 \<mapsto> ex_response]\<rparr>\<rparr>))
   \<and> (\<exists>evs. trace (snd (ServeHTTP ex_proxy_canned ex_env 0 ex_state)) =
               [EvReqHandler 0 0, EvReqHandler 1 0] @ evs
            \<and> list_all delivery_event evs \<and> hd evs = EvRespHandler 0 (Some 9))"
proof -
  let ?sk = "emit (EvReqHandler 0 0) (new_context 0 ex_state)"
  let ?hk = "(hp (new_context 0 ex_state))\<lparr>responses := [9 \<mapsto> ex_response]\<rparr>"
  have a: "requests (hp ex_state) 0 = Some ex_request"
    by (simp add: ex_state_def)
  have b: "Method ex_request \<noteq> ''CONNECT''" and c: "IsAbs (URL ex_request)"
    by (simp_all add: ex_request_def ex_url_def IsAbs_def)
  have d: "reqHandlers ex_proxy_canned = [ex_pass] @ ex_canned # [ex_replace]"
    by (simp add: ex_proxy_canned_def ex_proxy_def)
  have e: "filterRequest_loop [ex_pass] 0 0 (0, None) (new_context 0 ex_state) = ((0, None), ?sk)"
    by (simp add: ex_pass_def emit_def)
  have f: "ex_canned 0 (hp ?sk) = ((0, Some 9), ?hk)"
    by (simp add: ex_canned_def emit_def new_context_def ex_state_def Let_def)
  have g: "respHandlers ex_proxy_canned \<noteq> []"
    by (simp add: ex_proxy_canned_def ex_proxy_def)
  have h: "fst (deliver ex_proxy_canned ex_env 0 (Some 9)
                 (emit (EvReqHandler 1 0) (?sk\<lparr>hp := ?hk\<rparr>))) \<noteq> Panicked"
    by (simp add: deliver_def deferred_close_def filterResponse_def ex_proxy_canned_def
        ex_proxy_def emit_def Let_def)
  have t: "trace ex_state = []"
    by (simp add: ex_state_def)
  let ?s' = "emit (EvReqHandler 1 0) (?sk\<lparr>hp := ?hk\<rparr>)"
  note main = C2_canned_response_short_circuits[OF a b c d e f, of ex_env, unfolded Let_def]
  from main have fr: "filterRequest ex_proxy_canned 0 (new_context 0 ex_state) = ((0, Some 9), ?s')"
    by simp
  from main t have tr: "trace ?s' = [EvReqHandler 0 0, EvReqHandler 1 0]"
    by (simp add: upt_rec)
  from main have sv: "ServeHTTP ex_proxy_canned ex_env 0 ex_state =
                       deliver ex_proxy_canned ex_env 0 (Some 9) ?s'"
    by simp
  from main obtain evs where
    e1: "trace (snd (ServeHTTP ex_proxy_canned ex_env 0 ex_state)) = trace ?s' @ evs"
    and e2: "list_all delivery_event evs"
    and e3: "respHandlers ex_proxy_canned \<noteq> []
               \<and> fst (ServeHTTP ex_proxy_canned ex_env 0 ex_state) \<noteq> Panicked
             \<longrightarrow> hd evs = EvRespHandler 0 (Some 9)"
    by auto
  from e3 g h sv have e4: "hd evs = EvRespHandler 0 (Some 9)"
    by simp
  from e1 tr have e5: "trace (snd (ServeHTTP ex_proxy_canned ex_env 0 ex_state)) =
                         [EvReqHandler 0 0, EvReqHandler 1 0] @ evs"
    by simp
  from fr e5 e2 e4 show ?thesis
    by blast
qed

text \<open>
  Claim C1. The dial is refused and the server has one response filter. The response chain
  runs twice: once in the error branch after the round trip, on the absent response, and
  once more at the place where every path runs it.
\<close>

theorem C1_response_filters_run_twice_on_failure:
  "trace (snd (ServeHTTP ex_proxy ex_env_refused 0 ex_state)) =
     [EvRemoveProxyHeaders 0, EvSendRequestManually 0, EvDial False ''example.test:80'',
      EvRespHandler 0 None, EvRespHandler 0 None, EvHttpError ''connection refused'' 500]"
  by (simp add: ex_proxy_def ex_state_def ex_ctx_def
      ex_env_refused_def ex_env_def ex_request_def ex_url_def prepare_eq sanitize_def
      dispatch_defs)

text \<open>
  Claim C4. The request is a websocket upgrade and no request filter answered it. After
  \<^verbatim>\<open>serveWebsocket\<close> returns, \<^verbatim>\<open>ServeHTTP\<close> goes on: it calls the sanitizer and the transport
  sender, which dials the origin.
\<close>

theorem C4_websocket_falls_through:
  "isWebSocketRequest ex_env_ws ex_request
   \<and> trace (snd (ServeHTTP ex_proxy ex_env_ws 0 ex_state)) =
     [EvServeWebsocket 0, EvRemoveProxyHeaders 0, EvSendRequestManually 0,
      EvDial False ''example.test:80'',
      EvRespHandler 0 None, EvRespHandler 0 None, EvHttpError ''connection refused'' 500]"
  by (simp add: ex_proxy_def ex_state_def ex_ctx_def ex_env_ws_def
      ex_env_refused_def ex_env_def ex_request_def ex_url_def prepare_eq sanitize_def
      dispatch_defs)

section \<open>The sanitizer and \<^verbatim>\<open>Connection: close\<close>\<close>

lemma sanitize_eq:
  "sanitize req =
     req\<lparr>RequestURI := [],
         Header := (Header req)(''Accept-Encoding'' := None, ''Proxy-Connection'' := None,
                     ''Proxy-Authenticate'' := None, ''Proxy-Authorization'' := None),
         Close := (if Header_Get (Header req) ''Connection'' = ''close'' then False else Close req)\<rparr>"
  by (simp add: sanitize_def Let_def Header_Del_def Header_Get_def canon_Connection
      canon_Accept_Encoding canon_Proxy_Connection canon_Proxy_Authenticate
      canon_Proxy_Authorization)

lemma Get_close:
  assumes "Header_Get h ''Connection'' = ''close''"
  shows "\<exists>vs. h ''Connection'' = Some (''close'' # vs)"
  using assms by (auto simp: Header_Get_def canon_Connection split: option.splits list.splits)

lemma header_lines_has:
  assumes "k \<in> set ks" and "h k = Some (v # vs)"
  shows "\<exists>ls1 ls2. header_lines h ks = ls1 @ (k @ '': '' @ v @ CRLF) # ls2"
proof -
  from assms(1) obtain ks1 ks2 where ks: "ks = ks1 @ k # ks2"
    by (auto dest: split_list)
  have "header_lines h ks = header_lines h ks1 @ (k @ '': '' @ v @ CRLF)
          # (map (\<lambda>v. k @ '': '' @ v @ CRLF) vs @ header_lines h ks2)"
    by (simp add: ks header_lines_def assms(2))
  then show ?thesis by blast
qed

lemma send_trace_events:
  "\<exists>evs. trace (snd (sendRequestManually E r s)) = trace s @ evs
         \<and> list_all (\<lambda>e. \<not> sanitizer_event e) evs"
  by (auto simp: sendRequestManually_def Let_def emit_def set_request_def set_response_def
      split: option.splits sum.splits prod.splits)

lemma delivery_not_sanitizer: "delivery_event e \<Longrightarrow> \<not> sanitizer_event e"
  by (cases e) simp_all

lemma filterResponse_trace_events:
  "\<exists>evs. trace (snd (filterResponse proxy resp s)) = trace s @ evs
         \<and> list_all (\<lambda>e. \<not> sanitizer_event e) evs"
proof -
  from filterResponse_loop_trace[of "respHandlers proxy" 0 resp s] obtain evs where
    "trace (snd (filterResponse proxy resp s)) = trace s @ evs" "list_all delivery_event evs"
    by (auto simp: filterResponse_def)
  moreover from this(2) have "list_all (\<lambda>e. \<not> sanitizer_event e) evs"
    by (induction evs) (auto simp: delivery_not_sanitizer)
  ultimately show ?thesis by blast
qed

text \<open>What follows the round trip in the block.\<close>

lemma after_round_trip_trace:
  "\<exists>evs. trace (snd (case res of
              (Inl f, s3) \<Rightarrow> (Inl f, s3)
            | (Inr (resp, err), s3) \<Rightarrow>
                (case err of
                   None \<Rightarrow> (Inr resp, s3)
                 | Some e \<Rightarrow>
                     let s4 = s3\<lparr>hp := (hp s3)\<lparr>ctx := (ctx (hp s3))\<lparr>Error := Some e\<rparr>\<rparr>\<rparr>;
                         (resp', s5) = filterResponse proxy None s4
                     in (Inr resp', s5)))) = trace (snd res) @ evs
         \<and> list_all (\<lambda>e. \<not> sanitizer_event e) evs"
proof (cases res)
  case (Pair a s3)
  show ?thesis
  proof (cases a)
    case (Inl f)
    with Pair show ?thesis by simp
  next
    case (Inr b)
    obtain resp err where b: "b = (resp, err)" by (cases b)
    show ?thesis
    proof (cases err)
      case None
      with Pair Inr b show ?thesis by simp
    next
      case (Some e)
      let ?s4 = "s3\<lparr>hp := (hp s3)\<lparr>ctx := (ctx (hp s3))\<lparr>Error := Some e\<rparr>\<rparr>\<rparr>"
      from filterResponse_trace_events[of proxy None ?s4] obtain evs where
        "trace (snd (filterResponse proxy None ?s4)) = trace s3 @ evs"
        "list_all (\<lambda>e. \<not> sanitizer_event e) evs"
        by auto
      with Pair Inr b Some show ?thesis
        by (auto simp: Let_def split: prod.splits)
    qed
  qed
qed

lemma forward_keep_header:
  assumes "KeepHeader proxy"
  shows "\<exists>evs. trace (snd (forward proxy E r s)) = trace s @ evs
               \<and> list_all (\<lambda>e. \<not> sanitizer_event e) evs"
proof (cases "requests (hp s) r")
  case None
  then show ?thesis by (simp add: forward_def)
next
  case (Some req)
  define s1 where "s1 = (if isWebSocketRequest E req
                    then call (serveWebsocket E) r (emit (EvServeWebsocket r) s)
                    else s)"
  have t1: "\<exists>evs. trace s1 = trace s @ evs \<and> list_all (\<lambda>e. \<not> sanitizer_event e) evs"
    by (auto simp: s1_def call_def emit_def split: prod.splits)
  then obtain e1 where e1: "trace s1 = trace s @ e1" "list_all (\<lambda>e. \<not> sanitizer_event e) e1"
    by blast
  from send_trace_events[of E r s1] obtain e2 where
    e2: "trace (snd (RoundTrip E r s1)) = trace s1 @ e2" "list_all (\<lambda>e. \<not> sanitizer_event e) e2"
    by (auto simp: RoundTrip_def)
  from after_round_trip_trace[where res = "RoundTrip E r s1" and proxy = proxy] obtain e3 where
    e3: "trace (snd (forward proxy E r s)) = trace (snd (RoundTrip E r s1)) @ e3"
      "list_all (\<lambda>e. \<not> sanitizer_event e) e3"
    using Some assms by (auto simp: forward_def s1_def Let_def)
  have "trace (snd (forward proxy E r s)) = trace s @ (e1 @ e2 @ e3)"
    using e1 e2 e3 by simp
  moreover have "list_all (\<lambda>e. \<not> sanitizer_event e) (e1 @ e2 @ e3)"
    using e1 e2 e3 by simp
  ultimately show ?thesis by blast
qed

lemma forward_sanitized:
  assumes "requests (hp s) r = Some req" and "\<not> isWebSocketRequest E req"
    and "\<not> KeepHeader proxy"
    and "dial E (Scheme (URL (prepare (sanitize req))) = ''https'')
           (Host (URL (prepare (sanitize req)))) = None"
  shows "\<exists>evs. trace (snd (forward proxy E r s)) =
           trace s @ [EvRemoveProxyHeaders r, EvSendRequestManually r,
                      EvDial (Scheme (URL (prepare (sanitize req))) = ''https'')
                        (Host (URL (prepare (sanitize req)))),
                      EvWrite (Host (URL (prepare (sanitize req))))
                        (written (prepare (sanitize req))
                           (rangeKeys E (Header (prepare (sanitize req)))))] @ evs"
proof -
  let ?s2 = "set_request r (sanitize req) (emit (EvRemoveProxyHeaders r) s)"
  have rm: "removeProxyHeaders r s = (None, ?s2)"
    using assms(1) by (simp add: removeProxyHeaders_def Let_def emit_def)
  have r2: "requests (hp ?s2) r = Some (sanitize req)"
    by (simp add: set_request_def)
  have t2: "trace ?s2 = trace s @ [EvRemoveProxyHeaders r]"
    by (simp add: set_request_def emit_def)
  from send_written[OF r2 assms(4)] have
    e2: "trace (snd (RoundTrip E r ?s2)) =
           trace ?s2 @ [EvSendRequestManually r,
                      EvDial (Scheme (URL (prepare (sanitize req))) = ''https'')
                        (Host (URL (prepare (sanitize req)))),
                      EvWrite (Host (URL (prepare (sanitize req))))
                        (written (prepare (sanitize req))
                           (rangeKeys E (Header (prepare (sanitize req)))))]"
    by (simp add: RoundTrip_def)
  from after_round_trip_trace[where res = "RoundTrip E r ?s2" and proxy = proxy] obtain e3 where
    e3: "trace (snd (forward proxy E r s)) = trace (snd (RoundTrip E r ?s2)) @ e3"
    using assms(1,2,3) rm by (auto simp: forward_def Let_def)
  show ?thesis
    using e3 e2 t2 by simp
qed


lemma forward_keep_first:
  assumes "requests (hp s) r = Some req" and "\<not> isWebSocketRequest E req"
    and "KeepHeader proxy"
  shows "\<exists>evs. trace (snd (forward proxy E r s)) = trace s @ EvSendRequestManually r # evs"
proof -
  from send_trace[OF assms(1), of E] obtain e2 where
    e2: "trace (snd (RoundTrip E r s)) = trace s @ EvSendRequestManually r # e2"
    by (auto simp: RoundTrip_def)
  from after_round_trip_trace[where res = "RoundTrip E r s" and proxy = proxy] obtain e3 where
    e3: "trace (snd (forward proxy E r s)) = trace (snd (RoundTrip E r s)) @ e3"
    using assms by (auto simp: forward_def Let_def)
  show ?thesis
    using e3 e2 by simp
qed

text \<open>
  Claim C8. The inbound request has \<^verbatim>\<open>Connection: close\<close> and is not a websocket upgrade;
  \<open>req'\<close> is the request as sanitized and then prepared by the sender, the dial succeeds and
  the runtime ranges over every key of the header map.
  With \<^verbatim>\<open>KeepHeader\<close> false, the sanitizer runs on the request, clears its \<^verbatim>\<open>Close\<close> flag and
  leaves the \<^verbatim>\<open>Connection\<close> entry of the header map as it was, and the bytes written to the
  origin contain the line \<^verbatim>\<open>Connection: close\<close> among the header lines.
  With \<^verbatim>\<open>KeepHeader\<close> true, the first thing the block does is to call the sender, and the
  sanitizer is not called at any point.
\<close>

theorem C8_Connection_close_kept:
  assumes "requests (hp s) r = Some req"
    and "Header_Get (Header req) ''Connection'' = ''close''"
    and "\<not> isWebSocketRequest E req"
    and "req' = prepare (sanitize req)"
    and "dial E (Scheme (URL req') = ''https'') (Host (URL req')) = None"
    and "range_order (Header req') (rangeKeys E (Header req'))"
  shows "(\<not> KeepHeader proxy \<longrightarrow>
            removeProxyHeaders r s =
              (None, set_request r (sanitize req) (emit (EvRemoveProxyHeaders r) s))
          \<and> Close (sanitize req) = False
          \<and> Header (sanitize req) ''Connection'' = Header req ''Connection''
          \<and> (\<exists>ls1 ls2 evs.
                trace (snd (forward proxy E r s)) =
                  trace s @ [EvRemoveProxyHeaders r, EvSendRequestManually r,
                             EvDial (Scheme (URL req') = ''https'') (Host (URL req')),
                             EvWrite (Host (URL req'))
                               (request_line req'
                                @ concat (ls1 @ (''Connection: close'' @ CRLF) # ls2) @ CRLF)]
                  @ evs))
       \<and> (KeepHeader proxy \<longrightarrow>
            (\<exists>evs. trace (snd (forward proxy E r s)) = trace s @ EvSendRequestManually r # evs
                 \<and> list_all (\<lambda>e. \<not> sanitizer_event e) evs))"
proof (intro conjI impI)
  assume nk: "\<not> KeepHeader proxy"
  show "removeProxyHeaders r s =
          (None, set_request r (sanitize req) (emit (EvRemoveProxyHeaders r) s))"
    using assms(1) by (simp add: removeProxyHeaders_def Let_def emit_def)
  show "Close (sanitize req) = False"
    using assms(2) by (simp add: sanitize_eq)
  show "Header (sanitize req) ''Connection'' = Header req ''Connection''"
    by (simp add: sanitize_eq)
  from Get_close[OF assms(2)] obtain vs where c: "Header req ''Connection'' = Some (''close'' # vs)"
    by blast
  have hc: "Header req' ''Connection'' = Some (''close'' # vs)"
    using c by (simp add: assms(4) prepare_eq sanitize_eq)
  then have kin: "''Connection'' \<in> set (rangeKeys E (Header req'))"
    using assms(6) by (auto simp: range_order_def)
  from header_lines_has[where h = "Header req'" and k = "''Connection''" and v = "''close''"
      and vs = vs and ks = "rangeKeys E (Header req')", OF kin hc]
  obtain ls1 ls2 where
    ls: "header_lines (Header req') (rangeKeys E (Header req')) =
           ls1 @ (''Connection'' @ '': '' @ ''close'' @ CRLF) # ls2"
    by blast
  have w: "written req' (rangeKeys E (Header req')) =
             request_line req' @ concat (ls1 @ (''Connection: close'' @ CRLF) # ls2) @ CRLF"
    by (simp add: written_def ls)
  from forward_sanitized[OF assms(1,3) nk] assms(4,5) obtain evs where
    "trace (snd (forward proxy E r s)) =
       trace s @ [EvRemoveProxyHeaders r, EvSendRequestManually r,
                  EvDial (Scheme (URL req') = ''https'') (Host (URL req')),
                  EvWrite (Host (URL req')) (written req' (rangeKeys E (Header req')))] @ evs"
    by auto
  then show "\<exists>ls1 ls2 evs.
                trace (snd (forward proxy E r s)) =
                  trace s @ [EvRemoveProxyHeaders r, EvSendRequestManually r,
                             EvDial (Scheme (URL req') = ''https'') (Host (URL req')),
                             EvWrite (Host (URL req'))
                               (request_line req'
                                @ concat (ls1 @ (''Connection: close'' @ CRLF) # ls2) @ CRLF)]
                  @ evs"
    unfolding w by blast
next
  assume k: "KeepHeader proxy"
  from forward_keep_header[OF k, of E r s] obtain e1 where
    e1: "trace (snd (forward proxy E r s)) = trace s @ e1"
      "list_all (\<lambda>e. \<not> sanitizer_event e) e1"
    by blast
  from forward_keep_first[OF assms(1,3) k] obtain e2 where
    e2: "trace (snd (forward proxy E r s)) = trace s @ EvSendRequestManually r # e2"
    by blast
  from e1 e2 have "e1 = EvSendRequestManually r # e2"
    by simp
  with e1(2) have "list_all (\<lambda>e. \<not> sanitizer_event e) e2"
    by simp
  with e2 show "\<exists>evs. trace (snd (forward proxy E r s)) = trace s @ EvSendRequestManually r # evs
                 \<and> list_all (\<lambda>e. \<not> sanitizer_event e) evs"
    by blast
qed

text \<open>The request of the examples, on a server that sanitizes and on one that keeps headers.\<close>

theorem C8_Connection_close_kept_witness:
  "Close ex_request \<and> Close (sanitize ex_request) = False
   \<and> Header (sanitize ex_request) ''Connection'' = Some [''close'']
   \<and> (\<exists>ls1 ls2 evs.
        trace (snd (forward ex_proxy ex_env 0 ex_state)) =
          [EvRemoveProxyHeaders 0, EvSendRequestManually 0, EvDial False ''example.test:80'',
           EvWrite ''example.test:80''
             (''GET / HTTP/1.1'' @ CRLF
              @ concat (ls1 @ (''Connection: close'' @ CRLF) # ls2) @ CRLF)] @ evs)
   \<and> (\<exists>evs. trace (snd (forward ex_proxy_keep ex_env 0 ex_state)) = EvSendRequestManually 0 # evs
           \<and> list_all (\<lambda>e. \<not> sanitizer_event e) evs)"
proof -
  define req' where "req' = prepare (sanitize ex_request)"
  have a: "requests (hp ex_state) 0 = Some ex_request"
    by (simp add: ex_state_def)
  have b: "Header_Get (Header ex_request) ''Connection'' = ''close''"
    by (simp add: Header_Get_def canon_Connection ex_request_def)
  have c: "\<not> isWebSocketRequest ex_env ex_request"
    by (simp add: ex_env_def)
  have r: "req' = ex_request\<lparr>RequestURI := [], Close := False,
                    Header := [''Connection'' \<mapsto> [''close''], ''Host'' \<mapsto> [''example.test'']],
                    URL := ex_url\<lparr>Host := ''example.test:80''\<rparr>\<rparr>"
    unfolding req'_def prepare_eq sanitize_eq
    by (simp add: b) (auto simp: ex_request_def ex_url_def Hostname_def splitHostPort_def
        LastIndexByte_def)
  have d: "dial ex_env (Scheme (URL req') = ''https'') (Host (URL req')) = None"
    by (simp add: ex_env_def)
  have e: "range_order (Header req') (rangeKeys ex_env (Header req'))"
    unfolding r by (auto simp: range_order_def ex_env_def)
  have nk: "\<not> KeepHeader ex_proxy" and k: "KeepHeader ex_proxy_keep"
    by (simp_all add: ex_proxy_keep_def ex_proxy_def)
  have t: "trace ex_state = []"
    by (simp add: ex_state_def)
  have u: "Host (URL req') = ''example.test:80''" "Scheme (URL req') = ''http''"
    "request_line req' = ''GET / HTTP/1.1'' @ CRLF"
    unfolding r
    by (simp_all add: request_line_def URL_RequestURI_def ex_url_def ex_request_def)
  have v: "Close ex_request" "Header ex_request ''Connection'' = Some [''close'']"
    by (simp_all add: ex_request_def)
  show ?thesis
    using C8_Connection_close_kept[OF a b c req'_def d e, of ex_proxy]
      C8_Connection_close_kept[OF a b c req'_def d e, of ex_proxy_keep] nk k
    by (simp add: t u v)
qed

section \<open>Content-Length and the identity of the body\<close>

lemma forward_success:
  assumes "requests (hp s) r = Some req" and "\<not> isWebSocketRequest E req"
    and "dial E = (\<lambda>t a. None)" and "ReadResponse E = (\<lambda>a b. Inr (p, x0))"
  shows "fst (forward proxy E r s) = Inr (Some p)
       \<and> responses (hp (snd (forward proxy E r s))) p = Some x0"
  using assms
  by (simp add: forward_def removeProxyHeaders_def RoundTrip_def sendRequestManually_def
      emit_def set_request_def set_response_def Let_def)

lemma deliver_streamed:
  assumes "responses (hp s) p = Some x0"
    and "filterResponse proxy (Some p) s = (Some p', s1)"
    and "responses (hp s1) p' = Some x1"
  shows "fst (deliver proxy E r (Some p) s) = Streamed
       \<and> responses (hp (snd (deliver proxy E r (Some p) s))) p' =
           Some (x1\<lparr>RespHeader := (if Body x1 \<noteq> Body x0
                                    then (RespHeader x1)(''Content-Length'' := None)
                                    else RespHeader x1)\<rparr>)"
  using assms
  by (simp add: deliver_def deferred_close_def stream_def emit_def set_response_def Let_def
      Header_Del_def canon_Content_Length)

text \<open>
  Claim C9. No request filter answered, the request is not a websocket upgrade, and the
  origin answered with the response object \<open>x0\<close>, which the sender stored at \<open>p\<close>. If the
  response filters end with the response object \<open>x1\<close> at \<open>p'\<close>, the reply is streamed, and
  the header of the final response is that of \<open>x1\<close> without \<^verbatim>\<open>Content-Length\<close> when the
  body of \<open>x1\<close> is not the body object read from the origin, and that of \<open>x1\<close> unchanged when
  it is.
\<close>

theorem C9_Content_Length_dropped_iff_body_replaced:
  assumes "requests (hp s) r = Some req" and "Method req \<noteq> ''CONNECT''" and "IsAbs (URL req)"
    and "filterRequest proxy r (new_context r s) = ((r', None), s2)"
    and "requests (hp s2) r' = Some req'" and "\<not> isWebSocketRequest E req'"
    and "dial E = (\<lambda>t a. None)" and "ReadResponse E = (\<lambda>a b. Inr (p, x0))"
    and "filterResponse proxy (Some p) (snd (forward proxy E r' s2)) = (Some p', s4)"
    and "responses (hp s4) p' = Some x1"
  shows "fst (ServeHTTP proxy E r s) = Streamed
       \<and> responses (hp (snd (ServeHTTP proxy E r s))) p' =
           Some (x1\<lparr>RespHeader := (if Body x1 \<noteq> Body x0
                                    then (RespHeader x1)(''Content-Length'' := None)
                                    else RespHeader x1)\<rparr>)"
proof -
  obtain res s3 where f: "forward proxy E r' s2 = (res, s3)"
    by (cases "forward proxy E r' s2")
  from forward_success[OF assms(5,6,7,8), of proxy] f
  have res: "res = Inr (Some p)" and x0: "responses (hp s3) p = Some x0"
    by simp_all
  have sv: "ServeHTTP proxy E r s = deliver proxy E r' (Some p) s3"
    using assms(1,2,3,4) f res by (simp add: ServeHTTP_def Let_def)
  from assms(9) f have fr: "filterResponse proxy (Some p) s3 = (Some p', s4)"
    by simp
  show ?thesis
    unfolding sv using deliver_streamed[OF x0 fr assms(10)] by simp
qed


text \<open>The origin of the examples, with a filter that keeps the body and one that replaces it.\<close>

theorem C9_Content_Length_dropped_iff_body_replaced_witness:
  "fst (ServeHTTP ex_proxy ex_env 0 ex_state) = Streamed
   \<and> responses (hp (snd (ServeHTTP ex_proxy ex_env 0 ex_state))) 7 = Some ex_response
   \<and> fst (ServeHTTP ex_proxy_swap ex_env 0 ex_state) = Streamed
   \<and> responses (hp (snd (ServeHTTP ex_proxy_swap ex_env 0 ex_state))) 7 =
       Some (ex_response\<lparr>Body := 4,
               RespHeader := [''Content-Type'' \<mapsto> [''text/html; charset=ISO-8859-1'']]\<rparr>)"
proof -
  let ?s2 = "new_context 0 ex_state"
  have a: "requests (hp ex_state) 0 = Some ex_request"
    by (simp add: ex_state_def)
  have b: "Method ex_request \<noteq> ''CONNECT''" and c: "IsAbs (URL ex_request)"
    by (simp_all add: ex_request_def ex_url_def IsAbs_def)
  have d: "filterRequest ex_proxy 0 ?s2 = ((0, None), ?s2)"
    "filterRequest ex_proxy_swap 0 ?s2 = ((0, None), ?s2)"
    by (simp_all add: filterRequest_def ex_proxy_def ex_proxy_swap_def)
  have e: "requests (hp ?s2) 0 = Some ex_request"
    by (simp add: new_context_def ex_state_def Let_def)
  have f: "\<not> isWebSocketRequest ex_env ex_request"
    by (simp add: ex_env_def)
  have g: "dial ex_env = (\<lambda>t a. None)" and h: "ReadResponse ex_env = (\<lambda>a b. Inr (7, ex_response))"
    by (simp_all add: ex_env_def)
  obtain s3 where s3: "forward ex_proxy ex_env 0 ?s2 = (Inr (Some 7), s3)"
    using forward_success[OF e f g h, of ex_proxy]
    by (cases "forward ex_proxy ex_env 0 ?s2") simp
  have r3: "responses (hp s3) 7 = Some ex_response"
    using forward_success[OF e f g h, of ex_proxy] s3 by simp
  have i: "filterResponse ex_proxy (Some 7) (snd (forward ex_proxy ex_env 0 ?s2)) =
             (Some 7, emit (EvRespHandler 0 (Some 7))
                        (s3\<lparr>hp := (hp s3)\<lparr>ctx := (ctx (hp s3))\<lparr>Resp := Some 7\<rparr>\<rparr>\<rparr>))"
    unfolding s3 by (simp add: filterResponse_def ex_proxy_def)
  have j: "responses (hp (emit (EvRespHandler 0 (Some 7))
                        (s3\<lparr>hp := (hp s3)\<lparr>ctx := (ctx (hp s3))\<lparr>Resp := Some 7\<rparr>\<rparr>\<rparr>))) 7
             = Some ex_response"
    by (simp add: emit_def r3)
  obtain s3' where s3': "forward ex_proxy_swap ex_env 0 ?s2 = (Inr (Some 7), s3')"
    using forward_success[OF e f g h, of ex_proxy_swap]
    by (cases "forward ex_proxy_swap ex_env 0 ?s2") simp
  let ?h' = "((hp s3')\<lparr>ctx := (ctx (hp s3'))\<lparr>Resp := Some 7\<rparr>\<rparr>)
               \<lparr>responses := (responses (hp s3'))(7 \<mapsto> ex_response\<lparr>Body := 4\<rparr>)\<rparr>"
  have i': "filterResponse ex_proxy_swap (Some 7) (snd (forward ex_proxy_swap ex_env 0 ?s2)) =
             (Some 7, emit (EvRespHandler 0 (Some 7)) (s3'\<lparr>hp := ?h'\<rparr>))"
    unfolding s3' by (simp add: filterResponse_def ex_proxy_swap_def ex_proxy_def ex_swap_body_def)
  have j': "responses (hp (emit (EvRespHandler 0 (Some 7)) (s3'\<lparr>hp := ?h'\<rparr>))) 7
             = Some (ex_response\<lparr>Body := 4\<rparr>)"
    by (simp add: emit_def)
  have k: "(RespHeader ex_response)(''Content-Length'' := None) =
             [''Content-Type'' \<mapsto> [''text/html; charset=ISO-8859-1'']]"
    by (auto simp: ex_response_def)
  show ?thesis
    using C9_Content_Length_dropped_iff_body_replaced[OF a b c d(1) e f g h i j]
      C9_Content_Length_dropped_iff_body_replaced[OF a b c d(2) e f g h i' j']
    by (simp add: k) (simp add: ex_response_def)
qed

end
